theory Spec2Isabelle
  imports Main
begin

section \<open>Python values used by the RAG glue code\<close>

text \<open>
  A Python \<open>str\<close> is a sequence of Unicode code points, and \<open>len\<close> counts code points.
  The model keeps that: a string is a list of code points, written as natural numbers.
  \<open>ascii\<close> turns an ASCII literal into such a string.
\<close>

type_synonym pystr = "nat list"

definition ascii :: "string \<Rightarrow> pystr" where
  "ascii s = map of_char s"

text \<open>
  \<open>str.strip()\<close> without an argument removes the code points for which \<open>str.isspace\<close>
  holds from both ends: U+0009..U+000D, U+001C..U+0020, U+0085, U+00A0, U+1680,
  U+2000..U+200A, U+2028, U+2029, U+202F, U+205F and U+3000.
\<close>

definition is_space :: "nat \<Rightarrow> bool" where
  "is_space c \<longleftrightarrow>
     (9 \<le> c \<and> c \<le> 13) \<or> (28 \<le> c \<and> c \<le> 32) \<or> c = 133 \<or> c = 160 \<or> c = 5760 \<or>
     (8192 \<le> c \<and> c \<le> 8202) \<or> c = 8232 \<or> c = 8233 \<or> c = 8239 \<or> c = 8287 \<or>
     c = 12288"

definition strip :: "pystr \<Rightarrow> pystr" where
  "strip s = rev (dropWhile is_space (rev (dropWhile is_space s)))"

text \<open>\<open>s.replace(",", ".")\<close>: every comma (U+002C) becomes a full stop (U+002E).\<close>

definition replace_comma :: "pystr \<Rightarrow> pystr" where
  "replace_comma s = map (\<lambda>c. if c = 44 then 46 else c) s"

text \<open>
  Exceptions are values. \<open>str(exc)\<close> of an exception built from one message is that
  message.
\<close>

datatype pyexn =
    FileNotFoundError pystr
  | ValueError pystr
  | RuntimeError pystr
  | OtherException pystr

fun exn_str :: "pyexn \<Rightarrow> pystr" where
  "exn_str (FileNotFoundError m) = m"
| "exn_str (ValueError m) = m"
| "exn_str (RuntimeError m) = m"
| "exn_str (OtherException m) = m"

subsection \<open>The builtins \<open>int()\<close> and \<open>float()\<close> on ASCII text\<close>

text \<open>
  \<open>coerce_answer\<close> below takes the two builtins as parameters, so what is proved of it
  holds for whatever \<open>int()\<close> and \<open>float()\<close> accept. For concrete inputs the file also
  gives the decimal grammar of the two builtins on ASCII text: surrounding white space is
  ignored, a sign may lead, digits may be grouped by single underscores, \<open>float()\<close> also
  reads a fraction, an exponent and the words \<open>inf\<close>, \<open>infinity\<close> and \<open>nan\<close> in any
  letter case. A \<open>pyfloat\<close> is the number the text denotes, \<open>(-1)^s * m * 10^e\<close>; the
  rounding to a binary64 value is not part of the model. Digits outside ASCII and the
  interpreter's limit on the number of digits are outside these two definitions.
\<close>

datatype pyfloat = Decimal bool nat int | Infinity bool | NaN

definition is_digit :: "nat \<Rightarrow> bool" where
  "is_digit c \<longleftrightarrow> 48 \<le> c \<and> c \<le> 57"

fun digitpart :: "pystr \<Rightarrow> nat list option" where
  "digitpart [] = None"
| "digitpart [c] = (if is_digit c then Some [c - 48] else None)"
| "digitpart (c # d # cs) =
     (if is_digit c
      then map_option (Cons (c - 48)) (if d = 95 then digitpart cs else digitpart (d # cs))
      else None)"

definition digits_value :: "nat list \<Rightarrow> nat" where
  "digits_value ds = foldl (\<lambda>a d. 10 * a + d) 0 ds"

definition split_sign :: "pystr \<Rightarrow> bool \<times> pystr" where
  "split_sign s =
     (case s of
        [] \<Rightarrow> (False, [])
      | c # r \<Rightarrow> if c = 45 then (True, r) else if c = 43 then (False, r) else (False, s))"

definition signed_digits :: "pystr \<Rightarrow> int option" where
  "signed_digits s =
     (case split_sign s of
        (neg, body) \<Rightarrow>
          map_option (\<lambda>ds. if neg then - int (digits_value ds) else int (digits_value ds))
            (digitpart body))"

definition ascii_int :: "pystr \<Rightarrow> int option" where
  "ascii_int s = signed_digits (strip s)"

definition ascii_lower :: "nat \<Rightarrow> nat" where
  "ascii_lower c = (if 65 \<le> c \<and> c \<le> 90 then c + 32 else c)"

definition opt_digitpart :: "pystr \<Rightarrow> nat list option" where
  "opt_digitpart s = (if s = [] then Some [] else digitpart s)"

definition mantissa :: "pystr \<Rightarrow> (nat list \<times> nat list) option" where
  "mantissa m =
     (let ip = takeWhile (\<lambda>c. c \<noteq> 46) m; fr = dropWhile (\<lambda>c. c \<noteq> 46) m
      in case fr of
           [] \<Rightarrow> map_option (\<lambda>ds. (ds, [])) (digitpart ip)
         | dot # f \<Rightarrow>
             if ip = [] \<and> f = [] then None
             else (case opt_digitpart ip of
                     None \<Rightarrow> None
                   | Some ids \<Rightarrow> map_option (\<lambda>fds. (ids, fds)) (opt_digitpart f)))"

definition exponent :: "pystr \<Rightarrow> int option" where
  "exponent r = (case r of [] \<Rightarrow> Some 0 | e # ex \<Rightarrow> signed_digits ex)"

definition ascii_float :: "pystr \<Rightarrow> pyfloat option" where
  "ascii_float s =
     (case split_sign (strip s) of
        (neg, body) \<Rightarrow>
          let low = map ascii_lower body in
          if low = ascii ''inf'' \<or> low = ascii ''infinity'' then Some (Infinity neg)
          else if low = ascii ''nan'' then Some NaN
          else
            (let is_e = (\<lambda>c. c = 101 \<or> c = 69);
                 m = takeWhile (\<lambda>c. \<not> is_e c) body;
                 r = dropWhile (\<lambda>c. \<not> is_e c) body
             in case mantissa m of
                  None \<Rightarrow> None
                | Some (ids, fds) \<Rightarrow>
                    map_option
                      (\<lambda>e. Decimal neg (digits_value (ids @ fds)) (e - int (length fds)))
                      (exponent r)))"

section \<open>The HTTP layer: \<open>rag_api.py\<close>\<close>

text \<open>
  \<open>AnswerType = Union[str, int, float]\<close>. The float type is a parameter: it is whatever
  the builtin \<open>float()\<close> returns.
\<close>

datatype 'f answer = AStr pystr | AInt int | AFloat 'f

record 'f builtins =
  int_of_str :: "pystr \<Rightarrow> int option"
  float_of_str :: "pystr \<Rightarrow> 'f option"

text \<open>
  \<open>_coerce_answer\<close>: an empty stripped text is returned as the empty string; otherwise
  \<open>int(stripped)\<close> is tried, then \<open>float(stripped.replace(",", "."))\<close>, and a
  \<open>ValueError\<close> of either (\<open>None\<close> here) moves on to the next case.
\<close>

definition coerce_answer :: "'f builtins \<Rightarrow> pystr \<Rightarrow> 'f answer" where
  "coerce_answer py raw_answer =
     (let stripped = strip raw_answer in
      if stripped = [] then AStr []
      else
        (case int_of_str py stripped of
           Some integer \<Rightarrow> AInt integer
         | None \<Rightarrow>
             (case float_of_str py (replace_comma stripped) of
                Some floating \<Rightarrow> AFloat floating
              | None \<Rightarrow> AStr stripped)))"

definition python_ascii :: "pyfloat builtins" where
  "python_ascii = \<lparr>int_of_str = ascii_int, float_of_str = ascii_float\<rparr>"

section \<open>Documents and their metadata\<close>

text \<open>
  A metadata value is \<open>None\<close>, a \<open>str\<close> or an \<open>int\<close>: what the ingester writes
  (\<open>document_name\<close>, \<open>source_path\<close>, \<open>source_type\<close> are strings, \<open>page_number\<close> and
  the splitter's \<open>start_index\<close> are integers) and what \<open>dict.get\<close> returns for a missing
  key. On these values Python's \<open>==\<close> is equality of the model.
\<close>

datatype pyval = PNone | PStr pystr | PInt int

record document =
  page_content :: pystr
  metadata :: "pystr \<rightharpoonup> pyval"

definition dict_get :: "(pystr \<rightharpoonup> pyval) \<Rightarrow> pystr \<Rightarrow> pyval" where
  "dict_get m k = (case m k of None \<Rightarrow> PNone | Some v \<Rightarrow> v)"

definition dict_get_default :: "(pystr \<rightharpoonup> pyval) \<Rightarrow> pystr \<Rightarrow> pyval \<Rightarrow> pyval" where
  "dict_get_default m k d = (case m k of None \<Rightarrow> d | Some v \<Rightarrow> v)"

fun truthy :: "pyval \<Rightarrow> bool" where
  "truthy PNone = False"
| "truthy (PStr s) = (s \<noteq> [])"
| "truthy (PInt i) = (i \<noteq> 0)"

fun str_nat :: "nat \<Rightarrow> pystr" where
  "str_nat n = (if n < 10 then [48 + n] else str_nat (n div 10) @ [48 + n mod 10])"

declare str_nat.simps [simp del]

definition str_int :: "int \<Rightarrow> pystr" where
  "str_int i = (if i < 0 then 45 # str_nat (nat (- i)) else str_nat (nat i))"

fun format_value :: "pyval \<Rightarrow> pystr" where
  "format_value PNone = ascii ''None''"
| "format_value (PStr s) = s"
| "format_value (PInt i) = str_int i"

fun join :: "pystr \<Rightarrow> pystr list \<Rightarrow> pystr" where
  "join sep [] = []"
| "join sep [x] = x"
| "join sep (x # y # ys) = x @ sep @ join sep (y # ys)"

definition k_document_name :: pystr where
  "k_document_name = ascii ''document_name''"

definition k_page_number :: pystr where
  "k_page_number = ascii ''page_number''"

definition k_source_path :: pystr where
  "k_source_path = ascii ''source_path''"

definition k_source_type :: pystr where
  "k_source_type = ascii ''source_type''"

section \<open>The query pipeline: \<open>rag_pipeline.py\<close>\<close>

text \<open>
  The module's state is the three lazily created client handles (\<open>True\<close> once the global
  is no longer \<open>None\<close>). The persisted vector-store directory lives on disk: \<open>None\<close> when
  it does not exist, otherwise the chunks stored in it. \<open>trace\<close> records, in order, the
  calls made to the external services.
\<close>

datatype event = Search pystr int | Chat pystr pystr

record state =
  embeddings :: bool
  vector_store :: bool
  llm :: bool
  persist_dir :: "document list option"
  trace :: "event list"

text \<open>
  \<open>RelevantChunk\<close> is the pydantic model of the HTTP layer; \<open>file_entry\<close> is one path of
  the data directory together with what reading it yields.
\<close>

record relevant_chunk =
  document_name :: "pystr option"
  page_number :: "int option"

record file_entry =
  name :: pystr
  suffix_lower :: pystr
  full :: pystr
  relative_to_base :: "pystr option"
  is_dir :: bool
  read_text :: "pyexn + pystr"
  pdf_pages :: "pyexn + (pyexn + pystr option) list"

text \<open>
  Everything outside the repository is a parameter: the constructors of the three clients
  (\<open>Some e\<close> when the constructor raises \<open>e\<close>), the similarity search of the vector store,
  the chat model (given the formatted context and the question, it returns
  \<open>answer.content\<close>), pydantic's validation of a \<open>RelevantChunk\<close>, the environment variable
  holding the key, the sorted listing of the data directory, the text splitter, and
  \<open>Chroma.from_documents\<close>, which maps the directory's contents and the chunks to the new
  contents and may raise. The external calls may depend on the state they are made in.
\<close>

record world =
  persist_dir_path :: pystr
  openai_embeddings_init :: "state \<Rightarrow> pyexn option"
  chroma_init :: "state \<Rightarrow> pyexn option"
  chat_openai_init :: "state \<Rightarrow> pyexn option"
  similarity_search :: "state \<Rightarrow> pystr \<Rightarrow> int \<Rightarrow> pyexn + document list"
  llm_invoke :: "state \<Rightarrow> pystr \<Rightarrow> pystr \<Rightarrow> pyexn + pystr"
  relevant_chunk_model :: "pyval \<Rightarrow> pyval \<Rightarrow> pyexn + relevant_chunk"
  getenv_openai_api_key :: "pystr option"
  data_dir_listing :: "file_entry list"
  pypdf_available :: bool
  split_documents :: "document list \<Rightarrow> pyexn + document list"
  chroma_from_documents :: "document list \<Rightarrow> document list \<Rightarrow> pyexn option \<times> document list"

text \<open>The default of \<open>query_rag\<close>'s \<open>top_k\<close>; the endpoint always passes a value.\<close>

definition DEFAULT_TOP_K :: int where
  "DEFAULT_TOP_K = 5"

definition get_embeddings :: "world \<Rightarrow> state \<Rightarrow> (pyexn + unit) \<times> state" where
  "get_embeddings w st =
     (if \<not> embeddings st
      then (case openai_embeddings_init w st of
              Some e \<Rightarrow> (Inl e, st)
            | None \<Rightarrow> (Inr (), st\<lparr>embeddings := True\<rparr>))
      else (Inr (), st))"

definition missing_message :: "world \<Rightarrow> pystr" where
  "missing_message w =
     ascii ''Vector store directory '' @ persist_dir_path w @
     ascii '' is missing. Run rag_data.py to build it.''"

definition get_vector_store :: "world \<Rightarrow> state \<Rightarrow> (pyexn + unit) \<times> state" where
  "get_vector_store w st =
     (if \<not> vector_store st
      then (if persist_dir st = None
            then (Inl (FileNotFoundError (missing_message w)), st)
            else (case get_embeddings w st of
                    (Inl e, st1) \<Rightarrow> (Inl e, st1)
                  | (Inr u, st1) \<Rightarrow>
                      (case chroma_init w st1 of
                         Some e \<Rightarrow> (Inl e, st1)
                       | None \<Rightarrow> (Inr (), st1\<lparr>vector_store := True\<rparr>))))
      else (Inr (), st))"

definition get_llm :: "world \<Rightarrow> state \<Rightarrow> (pyexn + unit) \<times> state" where
  "get_llm w st =
     (if \<not> llm st
      then (case chat_openai_init w st of
              Some e \<Rightarrow> (Inl e, st)
            | None \<Rightarrow> (Inr (), st\<lparr>llm := True\<rparr>))
      else (Inr (), st))"

definition unknown_document :: pystr where
  "unknown_document =
     [1053, 1077, 1080, 1079, 1074, 1077, 1089, 1090, 1085, 1099, 1081, 32,
      1076, 1086, 1082, 1091, 1084, 1077, 1085, 1090]"

definition page_prefix :: pystr where
  "page_prefix = [44, 32, 1089, 1090, 1088, 1072, 1085, 1080, 1094, 1072, 32]"

definition format_part :: "document \<Rightarrow> pystr" where
  "format_part chunk =
     (let name = dict_get_default (metadata chunk) k_document_name (PStr unknown_document);
          page = dict_get (metadata chunk) k_page_number;
          page_info = (if truthy page then page_prefix @ format_value page else [])
      in [91] @ format_value name @ page_info @ [93, 10] @ page_content chunk)"

definition format_context :: "document list \<Rightarrow> pystr" where
  "format_context chunks = join [10, 10] (map format_part chunks)"

definition dont_know :: pystr where
  "dont_know = [1071, 32, 1085, 1077, 32, 1079, 1085, 1072, 1102]"

definition log_event :: "event \<Rightarrow> state \<Rightarrow> state" where
  "log_event ev st = st\<lparr>trace := trace st @ [ev]\<rparr>"

definition query_rag ::
  "world \<Rightarrow> state \<Rightarrow> pystr \<Rightarrow> int \<Rightarrow> (pyexn + pystr \<times> document list) \<times> state" where
  "query_rag w st question top_k =
     (case get_vector_store w st of
        (Inl e, st1) \<Rightarrow> (Inl e, st1)
      | (Inr u, st1) \<Rightarrow>
          (let st2 = log_event (Search question top_k) st1 in
           case similarity_search w st1 question top_k of
             Inl e \<Rightarrow> (Inl e, st2)
           | Inr retrieved \<Rightarrow>
               if retrieved = [] then (Inr (dont_know, []), st2)
               else
                 (let context = format_context retrieved in
                  case get_llm w st2 of
                    (Inl e, st3) \<Rightarrow> (Inl e, st3)
                  | (Inr u, st3) \<Rightarrow>
                      (let st4 = log_event (Chat context question) st3 in
                       case llm_invoke w st3 context question of
                         Inl e \<Rightarrow> (Inl e, st4)
                       | Inr content \<Rightarrow> (Inr (strip content, retrieved), st4)))))"

text \<open>
  \<open>collect_chunk_metadata\<close>: the loop keeps the set \<open>seen\<close> of keys and the list
  \<open>structured\<close>. The dictionary \<open>{"document_name": name, "page_number": page}\<close> it appends
  is the pair \<open>(name, page)\<close>.
\<close>

type_synonym chunk_meta = "pyval \<times> pyval"

definition chunk_key :: "document \<Rightarrow> chunk_meta" where
  "chunk_key chunk =
     (dict_get (metadata chunk) k_document_name, dict_get (metadata chunk) k_page_number)"

fun collect_loop :: "chunk_meta set \<Rightarrow> chunk_meta list \<Rightarrow> document list \<Rightarrow> chunk_meta list" where
  "collect_loop seen structured [] = structured"
| "collect_loop seen structured (chunk # chunks) =
     (let key = chunk_key chunk in
      if key \<in> seen then collect_loop seen structured chunks
      else collect_loop (insert key seen) (structured @ [key]) chunks)"

definition collect_chunk_metadata :: "document list \<Rightarrow> chunk_meta list" where
  "collect_chunk_metadata chunks = collect_loop {} [] chunks"

section \<open>The endpoint \<open>POST /query\<close>\<close>

text \<open>
  The request and response models of \<open>rag_api.py\<close>. The response's \<open>question_id\<close> field
  is called \<open>response_question_id\<close> here, to keep it apart from the request's.
\<close>

record question_payload =
  question_id :: int
  question :: pystr
  top_k :: "int option"

record questions_batch =
  questions :: "question_payload list"
  default_top_k :: "int option"

record 'f query_response =
  response_question_id :: int
  relevant_chunks :: "relevant_chunk list"
  answer :: "'f answer"

text \<open>
  What leaves the endpoint when it does not return: an \<open>HTTPException\<close> with its status
  code and detail, or an exception nothing catches.
\<close>

datatype http_failure = HTTPException int pystr | Unhandled pyexn

text \<open>\<open>x or y\<close> for an optional integer \<open>x\<close>: \<open>None\<close> and \<open>0\<close> are false.\<close>

definition or_int :: "int option \<Rightarrow> int \<Rightarrow> int" where
  "or_int x y = (case x of None \<Rightarrow> y | Some v \<Rightarrow> if v = 0 then y else v)"

fun http_of_exn :: "pyexn \<Rightarrow> http_failure" where
  "http_of_exn (FileNotFoundError m) = HTTPException 503 m"
| "http_of_exn e = HTTPException 500 (exn_str e)"

fun relevant_chunks_of :: "world \<Rightarrow> chunk_meta list \<Rightarrow> pyexn + relevant_chunk list" where
  "relevant_chunks_of w [] = Inr []"
| "relevant_chunks_of w (chunk # rest) =
     (case relevant_chunk_model w (fst chunk) (snd chunk) of
        Inl e \<Rightarrow> Inl e
      | Inr c \<Rightarrow>
          (case relevant_chunks_of w rest of
             Inl e \<Rightarrow> Inl e
           | Inr cs \<Rightarrow> Inr (c # cs)))"

fun endpoint_loop ::
  "'f builtins \<Rightarrow> world \<Rightarrow> int \<Rightarrow> state \<Rightarrow> 'f query_response list \<Rightarrow> question_payload list \<Rightarrow>
   (http_failure + 'f query_response list) \<times> state" where
  "endpoint_loop py w fallback_k st responses [] = (Inr responses, st)"
| "endpoint_loop py w fallback_k st responses (item # items) =
     (let k = or_int (top_k item) fallback_k in
      case query_rag w st (question item) k of
        (Inl e, st1) \<Rightarrow> (Inl (http_of_exn e), st1)
      | (Inr (ans, chunks), st1) \<Rightarrow>
          (case relevant_chunks_of w (collect_chunk_metadata chunks) of
             Inl e \<Rightarrow> (Inl (Unhandled e), st1)
           | Inr rcs \<Rightarrow>
               endpoint_loop py w fallback_k st1
                 (responses @
                  [\<lparr>response_question_id = question_id item,
                    relevant_chunks = rcs,
                    answer = coerce_answer py ans\<rparr>])
                 items))"

definition query_endpoint ::
  "'f builtins \<Rightarrow> world \<Rightarrow> state \<Rightarrow> questions_batch \<Rightarrow>
   (http_failure + 'f query_response list) \<times> state" where
  "query_endpoint py w st payload =
     (if questions payload = []
      then (Inl (HTTPException 400 (ascii ''Payload must contain at least one question'')), st)
      else endpoint_loop py w (or_int (default_top_k payload) 5) st [] (questions payload))"

section \<open>Ingestion: \<open>rag_data.py\<close>\<close>

definition MIN_CHARS_PER_PAGE :: nat where
  "MIN_CHARS_PER_PAGE = 50"

definition relative_path :: "file_entry \<Rightarrow> pystr" where
  "relative_path path = (case relative_to_base path of Some r \<Rightarrow> r | None \<Rightarrow> full path)"

definition source_type_of :: "file_entry \<Rightarrow> pystr" where
  "source_type_of path =
     (let s = dropWhile (\<lambda>c. c = 46) (suffix_lower path)
      in if s = [] then ascii ''text'' else s)"

definition load_text_document :: "file_entry \<Rightarrow> pyexn + document list" where
  "load_text_document path =
     (case read_text path of
        Inl e \<Rightarrow> Inl e
      | Inr raw \<Rightarrow>
          (let text = strip raw in
           if length text < MIN_CHARS_PER_PAGE then Inr []
           else Inr [\<lparr>page_content = text,
                      metadata = [k_document_name \<mapsto> PStr (name path),
                                  k_source_path \<mapsto> PStr (relative_path path),
                                  k_page_number \<mapsto> PInt 1,
                                  k_source_type \<mapsto> PStr (source_type_of path)]\<rparr>]))"

definition pdf_page_document :: "file_entry \<Rightarrow> int \<Rightarrow> pystr \<Rightarrow> document" where
  "pdf_page_document path page_index text =
     \<lparr>page_content = text,
      metadata = [k_document_name \<mapsto> PStr (name path),
                  k_source_path \<mapsto> PStr (relative_path path),
                  k_page_number \<mapsto> PInt page_index,
                  k_source_type \<mapsto> PStr (ascii ''pdf'')]\<rparr>"

text \<open>\<open>text = page.extract_text() or ""\<close>, then \<open>text = text.strip()\<close>.\<close>

definition page_text :: "pystr option \<Rightarrow> pystr" where
  "page_text extracted = strip (case extracted of None \<Rightarrow> [] | Some s \<Rightarrow> s)"

fun pdf_loop ::
  "file_entry \<Rightarrow> int \<Rightarrow> document list \<Rightarrow> (pyexn + pystr option) list \<Rightarrow> pyexn + document list" where
  "pdf_loop path page_index documents [] = Inr documents"
| "pdf_loop path page_index documents (page # pages) =
     (case page of
        Inl e \<Rightarrow> Inl e
      | Inr extracted \<Rightarrow>
          (let text = page_text extracted in
           if length text < MIN_CHARS_PER_PAGE
           then pdf_loop path (page_index + 1) documents pages
           else pdf_loop path (page_index + 1)
                  (documents @ [pdf_page_document path page_index text]) pages))"

definition load_pdf_document :: "world \<Rightarrow> file_entry \<Rightarrow> pyexn + document list" where
  "load_pdf_document w path =
     (if \<not> pypdf_available w
      then Inl (RuntimeError
        (ascii ''pypdf is required to read PDF files. Install it with `pip install pypdf`.''))
      else (case pdf_pages path of
              Inl e \<Rightarrow> Inl e
            | Inr pages \<Rightarrow> pdf_loop path 1 [] pages))"

definition SUPPORTED_TEXT_EXTENSIONS :: "pystr set" where
  "SUPPORTED_TEXT_EXTENSIONS = {ascii ''.txt'', ascii ''.md''}"

fun load_loop :: "world \<Rightarrow> document list \<Rightarrow> file_entry list \<Rightarrow> document list" where
  "load_loop w documents [] = documents"
| "load_loop w documents (file_path # rest) =
     (if is_dir file_path then load_loop w documents rest
      else if suffix_lower file_path = ascii ''.pdf''
      then (case load_pdf_document w file_path of
              Inl e \<Rightarrow> load_loop w documents rest
            | Inr loaded \<Rightarrow>
                if loaded = [] then load_loop w documents rest
                else load_loop w (documents @ loaded) rest)
      else if suffix_lower file_path \<in> SUPPORTED_TEXT_EXTENSIONS
      then (case load_text_document file_path of
              Inl e \<Rightarrow> load_loop w documents rest
            | Inr loaded \<Rightarrow>
                if loaded = [] then load_loop w documents rest
                else load_loop w (documents @ loaded) rest)
      else load_loop w documents rest)"

text \<open>
  \<open>data_dir_listing\<close> is \<open>sorted(DATA_DIR.rglob("*"))\<close>; it is empty exactly when the
  directory has no entry, which is the test \<open>not any(DATA_DIR.iterdir())\<close>. An exception
  of a loader is caught and the file is skipped.
\<close>

definition load_legal_documents :: "world \<Rightarrow> document list" where
  "load_legal_documents w =
     (if data_dir_listing w = [] then [] else load_loop w [] (data_dir_listing w))"

text \<open>
  \<open>shutil.rmtree\<close> behind its \<open>exists()\<close> test, and \<open>mkdir(parents=True, exist_ok=True)\<close>.
  Both are taken to succeed.
\<close>

definition clear_persist_dir :: "state \<Rightarrow> state" where
  "clear_persist_dir st = (if persist_dir st \<noteq> None then st\<lparr>persist_dir := None\<rparr> else st)"

definition mkdir_persist_dir :: "state \<Rightarrow> state" where
  "mkdir_persist_dir st = (if persist_dir st = None then st\<lparr>persist_dir := Some []\<rparr> else st)"

definition dir_contents :: "state \<Rightarrow> document list" where
  "dir_contents st = (case persist_dir st of None \<Rightarrow> [] | Some stored \<Rightarrow> stored)"

text \<open>
  \<open>build_vector_store\<close>. The console output and the closing sanity search, whose
  exception is caught and printed, change nothing and are left out.
\<close>

definition build_vector_store :: "world \<Rightarrow> state \<Rightarrow> (pyexn + unit) \<times> state" where
  "build_vector_store w st =
     (let documents = load_legal_documents w in
      if documents = [] then (Inr (), st)
      else
        (case split_documents w documents of
           Inl e \<Rightarrow> (Inl e, st)
         | Inr chunks \<Rightarrow>
             (case openai_embeddings_init w st of
                Some e \<Rightarrow> (Inl e, st)
              | None \<Rightarrow>
                  (let st1 = mkdir_persist_dir (clear_persist_dir st) in
                   case chroma_from_documents w (dir_contents st1) chunks of
                     (err, stored) \<Rightarrow>
                       (let st2 = st1\<lparr>persist_dir := Some stored\<rparr> in
                        case err of
                          Some e \<Rightarrow> (Inl e, st2)
                        | None \<Rightarrow> (Inr (), st2))))))"

section \<open>Start-up: \<open>api.py\<close>\<close>

definition key_not_found :: pystr where
  "key_not_found = 10060 # ascii '' OpenAI API key not found in .env file''"

text \<open>
  The module body of \<open>api.py\<close>: \<open>not openai_key\<close> holds for \<open>None\<close> and for the empty
  string. Both other modules start with \<open>from api import openai_key\<close>, so the body runs
  before anything of theirs.
\<close>

definition api_module :: "world \<Rightarrow> pyexn + pystr" where
  "api_module w =
     (case getenv_openai_api_key w of
        None \<Rightarrow> Inl (ValueError key_not_found)
      | Some openai_key \<Rightarrow>
          if openai_key = [] then Inl (ValueError key_not_found) else Inr openai_key)"

text \<open>
  Running \<open>rag_data.py\<close> as a script: the imports, then \<open>build_vector_store()\<close>.
  Serving \<open>rag_api.py\<close>: the imports, then the requests one after the other.
\<close>

definition rag_data_main :: "world \<Rightarrow> state \<Rightarrow> (pyexn + unit) \<times> state" where
  "rag_data_main w st =
     (case api_module w of
        Inl e \<Rightarrow> (Inl e, st)
      | Inr openai_key \<Rightarrow> build_vector_store w st)"

fun serve ::
  "'f builtins \<Rightarrow> world \<Rightarrow> state \<Rightarrow> questions_batch list \<Rightarrow>
   (http_failure + 'f query_response list) list \<times> state" where
  "serve py w st [] = ([], st)"
| "serve py w st (payload # rest) =
     (case query_endpoint py w st payload of
        (r, st1) \<Rightarrow> (case serve py w st1 rest of (rs, st2) \<Rightarrow> (r # rs, st2)))"

definition rag_api_main ::
  "'f builtins \<Rightarrow> world \<Rightarrow> state \<Rightarrow> questions_batch list \<Rightarrow>
   (pyexn + (http_failure + 'f query_response list) list) \<times> state" where
  "rag_api_main py w st requests =
     (case api_module w of
        Inl e \<Rightarrow> (Inl e, st)
      | Inr openai_key \<Rightarrow> (case serve py w st requests of (rs, st1) \<Rightarrow> (Inr rs, st1)))"

section \<open>Observations and concrete inputs\<close>

text \<open>The retrieval calls and the chat calls of a trace, in order.\<close>

fun search_calls :: "event list \<Rightarrow> (pystr \<times> int) list" where
  "search_calls [] = []"
| "search_calls (Search q k # es) = (q, k) # search_calls es"
| "search_calls (Chat c q # es) = search_calls es"

fun chat_calls :: "event list \<Rightarrow> (pystr \<times> pystr) list" where
  "chat_calls [] = []"
| "chat_calls (Search q k # es) = chat_calls es"
| "chat_calls (Chat c q # es) = (c, q) # chat_calls es"

text \<open>
  A world for concrete runs: every constructor succeeds, the search returns one chunk of
  page 1 of \<open>law.pdf\<close>, the chat model answers \<open>42\<close>, the chunk model accepts a
  string or \<open>None\<close> as name and an integer or \<open>None\<close> as page, the key is set and the
  data directory is empty.
\<close>

fun typed_chunk_model :: "pyval \<Rightarrow> pyval \<Rightarrow> pyexn + relevant_chunk" where
  "typed_chunk_model (PInt i) page = Inl (ValueError (ascii ''document_name''))"
| "typed_chunk_model nm (PStr s) = Inl (ValueError (ascii ''page_number''))"
| "typed_chunk_model nm page =
     Inr \<lparr>document_name = (case nm of PStr s \<Rightarrow> Some s | _ \<Rightarrow> None),
          page_number = (case page of PInt i \<Rightarrow> Some i | _ \<Rightarrow> None)\<rparr>"

definition law_chunk :: document where
  "law_chunk =
     \<lparr>page_content = ascii ''Article 1'',
      metadata = [k_document_name \<mapsto> PStr (ascii ''law.pdf''), k_page_number \<mapsto> PInt 1]\<rparr>"

definition demo_world :: world where
  "demo_world =
     \<lparr>persist_dir_path = ascii ''chroma_db/kz_legal_codes'',
      openai_embeddings_init = (\<lambda>st. None),
      chroma_init = (\<lambda>st. None),
      chat_openai_init = (\<lambda>st. None),
      similarity_search = (\<lambda>st q k. Inr [law_chunk]),
      llm_invoke = (\<lambda>st c q. Inr (ascii ''42'')),
      relevant_chunk_model = typed_chunk_model,
      getenv_openai_api_key = Some (ascii ''sk-test''),
      data_dir_listing = [],
      pypdf_available = True,
      split_documents = (\<lambda>ds. Inr ds),
      chroma_from_documents = (\<lambda>stored chunks. (None, stored @ chunks))\<rparr>"

text \<open>A fresh process with the directory built, and one with the directory missing.\<close>

definition built_state :: state where
  "built_state =
     \<lparr>embeddings = False, vector_store = False, llm = False,
      persist_dir = Some [law_chunk], trace = []\<rparr>"

definition unbuilt_state :: state where
  "unbuilt_state =
     \<lparr>embeddings = False, vector_store = False, llm = False,
      persist_dir = None, trace = []\<rparr>"

definition ask :: "int \<Rightarrow> string \<Rightarrow> int option \<Rightarrow> question_payload" where
  "ask i q k = \<lparr>question_id = i, question = ascii q, top_k = k\<rparr>"

definition one_question :: questions_batch where
  "one_question = \<lparr>questions = [ask 1 ''q'' None], default_top_k = None\<rparr>"

definition two_questions :: questions_batch where
  "two_questions =
     \<lparr>questions = [ask 7 ''first'' (Some 3), ask 4 ''second'' None], default_top_k = Some 2\<rparr>"

definition zero_top_k :: questions_batch where
  "zero_top_k = \<lparr>questions = [ask 1 ''q'' (Some 0)], default_top_k = None\<rparr>"

definition empty_index_world :: world where
  "empty_index_world = demo_world\<lparr>similarity_search := (\<lambda>st q k. Inr [])\<rparr>"

text \<open>Python's \<open>enumerate(xs, start=i)\<close>.\<close>

fun enumerate_from :: "int \<Rightarrow> 'a list \<Rightarrow> (int \<times> 'a) list" where
  "enumerate_from i [] = []"
| "enumerate_from i (x # xs) = (i, x) # enumerate_from (i + 1) xs"

text \<open>
  A data directory for concrete runs: a text file of five characters, a text file of
  more than fifty, and a PDF whose second page is short and whose third has no text.
\<close>

definition long_text :: pystr where
  "long_text = ascii ''Article 1. This Code governs civil-law relations in Kazakhstan.''"

definition other_text :: pystr where
  "other_text = ascii ''Article 2. Citizens and legal entities acquire rights freely.''"

definition short_txt :: file_entry where
  "short_txt =
     \<lparr>name = ascii ''note.txt'', suffix_lower = ascii ''.txt'',
      full = ascii ''/app/data/laws/note.txt'', relative_to_base = Some (ascii ''data/laws/note.txt''),
      is_dir = False, read_text = Inr (ascii '' short ''),
      pdf_pages = Inl (OtherException (ascii ''not a PDF''))\<rparr>"

definition long_txt :: file_entry where
  "long_txt =
     \<lparr>name = ascii ''code.txt'', suffix_lower = ascii ''.txt'',
      full = ascii ''/app/data/laws/code.txt'', relative_to_base = Some (ascii ''data/laws/code.txt''),
      is_dir = False, read_text = Inr long_text,
      pdf_pages = Inl (OtherException (ascii ''not a PDF''))\<rparr>"

definition law_pdf :: file_entry where
  "law_pdf =
     \<lparr>name = ascii ''law.pdf'', suffix_lower = ascii ''.pdf'',
      full = ascii ''/app/data/laws/law.pdf'', relative_to_base = Some (ascii ''data/laws/law.pdf''),
      is_dir = False, read_text = Inl (OtherException (ascii ''binary'')),
      pdf_pages = Inr [Inr (Some long_text), Inr (Some (ascii ''12'')), Inr None,
                       Inr (Some other_text)]\<rparr>"

definition library_world :: world where
  "library_world = demo_world\<lparr>data_dir_listing := [long_txt, law_pdf, short_txt]\<rparr>"

definition empty_key_world :: world where
  "empty_key_world = demo_world\<lparr>getenv_openai_api_key := Some []\<rparr>"


definition unbuilt_world :: world where
  "unbuilt_world = demo_world\<lparr>getenv_openai_api_key := None\<rparr>"

text \<open>
  The answer strings \<open>query_rag\<close> returns for the questions of a batch, in order, each
  call made in the state the previous one left, up to the first call that raises.
\<close>

fun pipeline_answers :: "world \<Rightarrow> int \<Rightarrow> state \<Rightarrow> question_payload list \<Rightarrow> pystr list" where
  "pipeline_answers w fallback_k st [] = []"
| "pipeline_answers w fallback_k st (item # items) =
     (case query_rag w st (question item) (or_int (top_k item) fallback_k) of
        (Inl e, st1) \<Rightarrow> []
      | (Inr r, st1) \<Rightarrow> fst r # pipeline_answers w fallback_k st1 items)"

text \<open>Worlds whose chat model answers \<open>3\<close>, \<open>3,5\<close> and a sentence.\<close>

definition three_world :: world where
  "three_world = demo_world\<lparr>llm_invoke := (\<lambda>st c q. Inr (ascii '' 3 ''))\<rparr>"

definition comma_world :: world where
  "comma_world = demo_world\<lparr>llm_invoke := (\<lambda>st c q. Inr (ascii ''3,5''))\<rparr>"

definition words_world :: world where
  "words_world = demo_world\<lparr>llm_invoke := (\<lambda>st c q. Inr (ascii ''No.''))\<rparr>"

text \<open>
  A PDF whose first page has 49 letters followed by ten blanks and whose second page is
  \<open>long_text\<close> between white space; a text file of 49 letters between blanks.
\<close>

definition letters49 :: pystr where
  "letters49 = ascii ''abcdefghijklmnopqrstuvwxyzabcdefghijklmnopqrstuvw''"

definition padded_pdf :: file_entry where
  "padded_pdf =
     \<lparr>name = ascii ''padded.pdf'', suffix_lower = ascii ''.pdf'',
      full = ascii ''/app/data/laws/padded.pdf'',
      relative_to_base = Some (ascii ''data/laws/padded.pdf''),
      is_dir = False, read_text = Inl (OtherException (ascii ''binary'')),
      pdf_pages = Inr [Inr (Some (letters49 @ ascii ''          '')),
                       Inr (Some ([32, 10] @ long_text @ [10, 32]))]\<rparr>"

definition padded_txt :: file_entry where
  "padded_txt =
     \<lparr>name = ascii ''padded.txt'', suffix_lower = ascii ''.txt'',
      full = ascii ''/app/data/laws/padded.txt'',
      relative_to_base = Some (ascii ''data/laws/padded.txt''),
      is_dir = False, read_text = Inr (ascii ''     '' @ letters49 @ ascii ''     ''),
      pdf_pages = Inl (OtherException (ascii ''not a PDF''))\<rparr>"

section \<open>Verified properties\<close>

subsection \<open>Evaluation rules for concrete inputs\<close>

lemmas str_eval = ascii_def strip_def is_space_def replace_comma_def

lemmas num_eval = ascii_int_def ascii_float_def signed_digits_def split_sign_def is_digit_def
  digits_value_def mantissa_def exponent_def opt_digitpart_def ascii_lower_def python_ascii_def

lemmas pipeline_eval = query_endpoint_def query_rag_def get_vector_store_def
  get_embeddings_def get_llm_def log_event_def or_int_def collect_chunk_metadata_def
  chunk_key_def dict_get_def coerce_answer_def Let_def

lemmas demo_eval = demo_world_def built_state_def unbuilt_state_def law_chunk_def ask_def
  k_document_name_def k_page_number_def

subsection \<open>Coercion of answers\<close>

text \<open>An answer of the pipeline is already trimmed: \<open>strip\<close> is idempotent.\<close>

lemma last_dropWhile:
  "dropWhile P xs \<noteq> [] \<Longrightarrow> last (dropWhile P xs) = last xs"
proof -
  assume a: "dropWhile P xs \<noteq> []"
  have "last xs = last (takeWhile P xs @ dropWhile P xs)" by simp
  also from a have "\<dots> = last (dropWhile P xs)" by (rule last_appendR)
  finally show ?thesis by simp
qed

lemma strip_no_space_ends:
  "strip s = [] \<or> (\<not> is_space (hd (strip s)) \<and> \<not> is_space (last (strip s)))"
proof (cases "strip s = []")
  case True
  then show ?thesis by simp
next
  case False
  let ?d = "dropWhile is_space s"
  let ?u = "dropWhile is_space (rev ?d)"
  from False have u: "?u \<noteq> []" by (simp add: strip_def)
  have d: "?d \<noteq> []"
  proof
    assume "?d = []"
    then have "?u = []" by (simp only: rev.simps dropWhile.simps)
    with u show False ..
  qed
  from u have "\<not> is_space (hd ?u)" by (rule hd_dropWhile)
  then have l: "\<not> is_space (last (strip s))"
    by (simp add: strip_def last_rev)
  from d have "\<not> is_space (hd ?d)" by (rule hd_dropWhile)
  moreover from u have "last ?u = last (rev ?d)" by (rule last_dropWhile)
  ultimately have "\<not> is_space (hd (strip s))"
    using d by (simp add: strip_def hd_rev last_rev)
  with l show ?thesis by simp
qed

lemma strip_idem: "strip (strip s) = strip s"
proof (cases "strip s = []")
  case True
  have "strip [] = []" by (simp add: strip_def)
  with True show ?thesis by (simp only:)
next
  case False
  with strip_no_space_ends [of s]
  have h: "\<not> is_space (hd (strip s))" and l: "\<not> is_space (last (strip s))"
    by simp_all
  from False h have 1: "dropWhile is_space (strip s) = strip s"
    by (cases "strip s") simp_all
  from False l have 2: "dropWhile is_space (rev (strip s)) = rev (strip s)"
    by (cases "rev (strip s)") (simp_all add: last_rev [symmetric] hd_rev)
  show ?thesis
    unfolding strip_def [of "strip s"] 1 2 by simp
qed

lemma strip_dont_know: "strip dont_know = dont_know"
  by (simp add: dont_know_def strip_def is_space_def)

lemma query_rag_answer_stripped:
  "fst (query_rag w st q k) = Inr (a, chunks) \<Longrightarrow> strip a = a"
  by (auto simp: query_rag_def Let_def strip_idem strip_dont_know
      split: prod.splits sum.splits if_splits)

text \<open>
  The cases of \<open>coerce_answer\<close> for builtins that reject the empty text, as \<open>int()\<close>
  and \<open>float()\<close> do.
\<close>

lemma coerce_answer_raw_cases:
  assumes "int_of_str py [] = None" and "float_of_str py [] = None"
  shows "(int_of_str py (strip raw) = Some n \<longrightarrow> coerce_answer py raw = AInt n) \<and>
         (int_of_str py (strip raw) = None \<and>
          float_of_str py (replace_comma (strip raw)) = Some f \<longrightarrow>
            coerce_answer py raw = AFloat f) \<and>
         (int_of_str py (strip raw) = None \<and>
          float_of_str py (replace_comma (strip raw)) = None \<longrightarrow>
            coerce_answer py raw = AStr (strip raw))"
  using assms by (auto simp: coerce_answer_def Let_def replace_comma_def)

subsection \<open>Frame and trace lemmas of the pipeline\<close>

lemma search_calls_append: "search_calls (xs @ ys) = search_calls xs @ search_calls ys"
  by (induction xs rule: search_calls.induct) simp_all

lemma chat_calls_append: "chat_calls (xs @ ys) = chat_calls xs @ chat_calls ys"
  by (induction xs rule: chat_calls.induct) simp_all

lemma get_embeddings_frame:
  "get_embeddings w st = (r, st1) \<Longrightarrow>
     trace st1 = trace st \<and> persist_dir st1 = persist_dir st \<and> llm st1 = llm st \<and>
     vector_store st1 = vector_store st"
  by (auto simp: get_embeddings_def split: if_splits option.splits)

lemma get_vector_store_frame:
  "get_vector_store w st = (r, st1) \<Longrightarrow>
     trace st1 = trace st \<and> persist_dir st1 = persist_dir st \<and> llm st1 = llm st"
  by (auto simp: get_vector_store_def split: if_splits option.splits prod.splits sum.splits
      dest!: get_embeddings_frame)

lemma get_llm_frame:
  "get_llm w st = (r, st1) \<Longrightarrow> trace st1 = trace st \<and> persist_dir st1 = persist_dir st"
  by (auto simp: get_llm_def split: if_splits option.splits)

lemma get_vector_store_missing:
  "\<not> vector_store st \<Longrightarrow> persist_dir st = None \<Longrightarrow>
     get_vector_store w st = (Inl (FileNotFoundError (missing_message w)), st)"
  by (simp add: get_vector_store_def)

lemma query_rag_missing:
  "\<not> vector_store st \<Longrightarrow> persist_dir st = None \<Longrightarrow>
     query_rag w st q k = (Inl (FileNotFoundError (missing_message w)), st)"
  by (simp add: query_rag_def get_vector_store_missing)

text \<open>What one call of \<open>query_rag\<close> adds to the trace.\<close>

lemma query_rag_search_calls:
  assumes "query_rag w st q k = (r, st1)"
  shows "(search_calls (trace st1) = search_calls (trace st) @ [(q, k)]) \<or>
         (search_calls (trace st1) = search_calls (trace st) \<and> (\<exists>e. r = Inl e))"
proof (cases "get_vector_store w st")
  case (Pair g sg)
  note gv = get_vector_store_frame [OF Pair]
  show ?thesis
  proof (cases g)
    case (Inl e)
    with Pair assms gv show ?thesis by (auto simp: query_rag_def)
  next
    case (Inr u)
    show ?thesis
    proof (cases "similarity_search w sg q k")
      case (Inl e)
      with Pair Inr assms gv show ?thesis
        by (auto simp: query_rag_def log_event_def search_calls_append)
    next
      case found: (Inr retrieved)
      show ?thesis
      proof (cases "retrieved = []")
        case True
        with Pair Inr found assms gv show ?thesis
          by (auto simp: query_rag_def log_event_def search_calls_append)
      next
        case False
        obtain l sl where gl: "get_llm w (log_event (Search q k) sg) = (l, sl)"
          by (cases "get_llm w (log_event (Search q k) sg)")
        from get_llm_frame [OF gl] have tl: "trace sl = trace sg @ [Search q k]"
          by (simp add: log_event_def)
        from Pair Inr found False gl assms gv tl show ?thesis
          by (auto simp: query_rag_def Let_def log_event_def search_calls_append
              split: sum.splits)
      qed
    qed
  qed
qed

lemma query_rag_ok_search_calls:
  assumes "query_rag w st q k = (Inr res, st1)"
  shows "search_calls (trace st1) = search_calls (trace st) @ [(q, k)]"
  using query_rag_search_calls [OF assms] by auto

lemma endpoint_loop_calls:
  "endpoint_loop py w fb st rs items = (res, st1) \<Longrightarrow>
     \<exists>n \<le> length items.
       search_calls (trace st1) =
         search_calls (trace st) @ map (\<lambda>i. (question i, or_int (top_k i) fb)) (take n items)"
proof (induction items arbitrary: st rs)
  case Nil
  then show ?case by simp
next
  case (Cons item items)
  obtain r s1 where q: "query_rag w st (question item) (or_int (top_k item) fb) = (r, s1)"
    by (cases "query_rag w st (question item) (or_int (top_k item) fb)")
  show ?case
  proof (cases r)
    case (Inl e)
    with q Cons.prems have "st1 = s1" by (simp add: Let_def)
    from query_rag_search_calls [OF q] show ?thesis
    proof
      assume a: "search_calls (trace s1) = search_calls (trace st) @ [(question item, or_int (top_k item) fb)]"
      show ?thesis
        by (rule exI [of _ 1]) (simp add: a \<open>st1 = s1\<close>)
    next
      assume "search_calls (trace s1) = search_calls (trace st) \<and> (\<exists>e. r = Inl e)"
      then show ?thesis
        by (intro exI [of _ 0]) (simp add: \<open>st1 = s1\<close>)
    qed
  next
    case (Inr ac)
    obtain ans chunks where ac: "ac = (ans, chunks)" by (cases ac)
    from q Inr ac have ok: "query_rag w st (question item) (or_int (top_k item) fb) = (Inr (ans, chunks), s1)"
      by simp
    note sc = query_rag_ok_search_calls [OF ok]
    show ?thesis
    proof (cases "relevant_chunks_of w (collect_chunk_metadata chunks)")
      case (Inl e)
      with ok Cons.prems have "st1 = s1" by (simp add: Let_def)
      then show ?thesis
        by (intro exI [of _ 1]) (simp add: sc)
    next
      case rc: (Inr rcs)
      with ok Cons.prems obtain rs' where
        "endpoint_loop py w fb s1 rs' items = (res, st1)"
        by (simp add: Let_def)
      from Cons.IH [OF this] obtain n where
        n: "n \<le> length items"
        "search_calls (trace st1) =
           search_calls (trace s1) @ map (\<lambda>i. (question i, or_int (top_k i) fb)) (take n items)"
        by blast
      show ?thesis
        by (rule exI [of _ "Suc n"]) (simp add: n sc)
    qed
  qed
qed

lemma endpoint_loop_ok:
  "endpoint_loop py w fb st rs items = (Inr out, st1) \<Longrightarrow>
     map response_question_id out = map response_question_id rs @ map question_id items \<and>
     search_calls (trace st1) =
       search_calls (trace st) @ map (\<lambda>i. (question i, or_int (top_k i) fb)) items"
proof (induction items arbitrary: st rs)
  case Nil
  then show ?case by simp
next
  case (Cons item items)
  obtain r s1 where q: "query_rag w st (question item) (or_int (top_k item) fb) = (r, s1)"
    by (cases "query_rag w st (question item) (or_int (top_k item) fb)")
  show ?case
  proof (cases r)
    case (Inl e)
    with q Cons.prems show ?thesis by (simp add: Let_def)
  next
    case (Inr ac)
    obtain ans chunks where ac: "ac = (ans, chunks)" by (cases ac)
    from q Inr ac have ok: "query_rag w st (question item) (or_int (top_k item) fb) = (Inr (ans, chunks), s1)"
      by simp
    note sc = query_rag_ok_search_calls [OF ok]
    show ?thesis
    proof (cases "relevant_chunks_of w (collect_chunk_metadata chunks)")
      case (Inl e)
      with ok Cons.prems show ?thesis by (simp add: Let_def)
    next
      case rc: (Inr rcs)
      let ?rs' = "rs @ [\<lparr>response_question_id = question_id item, relevant_chunks = rcs,
                         answer = coerce_answer py ans\<rparr>]"
      from rc ok Cons.prems have "endpoint_loop py w fb s1 ?rs' items = (Inr out, st1)"
        by (simp add: Let_def)
      from Cons.IH [OF this] show ?thesis by (simp add: sc)
    qed
  qed
qed

subsection \<open>The endpoint\<close>

text \<open>
  Claim C10. A request whose list of questions is empty fails with status 400, and the
  state is the one before the request: no handle was created and the trace has no new
  retrieval or chat call.
\<close>

theorem query_endpoint_empty_batch:
  "query_endpoint py w st \<lparr>questions = [], default_top_k = d\<rparr> =
     (Inl (HTTPException 400 (ascii ''Payload must contain at least one question'')), st)"
  by (simp add: query_endpoint_def)

text \<open>
  Claim C2, as the code has it. For a request with at least one question, made while the
  process holds no vector-store handle yet and the persisted directory is missing, the
  pipeline raises \<open>FileNotFoundError\<close> on the first question, the endpoint fails with
  status 503, no answer is returned, and no external call is made.
\<close>

theorem missing_directory_503:
  assumes "questions payload \<noteq> []" and "\<not> vector_store st" and "persist_dir st = None"
  shows "query_rag w st q k = (Inl (FileNotFoundError (missing_message w)), st) \<and>
         query_endpoint py w st payload = (Inl (HTTPException 503 (missing_message w)), st)"
proof -
  from assms(1) obtain item items where qs: "questions payload = item # items"
    by (cases "questions payload") auto
  from assms(2,3) have "\<And>q k. query_rag w st q k = (Inl (FileNotFoundError (missing_message w)), st)"
    by (rule query_rag_missing)
  then show ?thesis
    by (simp add: query_endpoint_def qs)
qed

theorem missing_directory_503_witness:
  "questions one_question \<noteq> [] \<and> \<not> vector_store unbuilt_state \<and>
   persist_dir unbuilt_state = None \<and>
   query_endpoint python_ascii demo_world unbuilt_state one_question =
     (Inl (HTTPException 503 (missing_message demo_world)), unbuilt_state)"
proof -
  have h: "questions one_question \<noteq> []" "\<not> vector_store unbuilt_state"
    "persist_dir unbuilt_state = None"
    by (simp_all add: one_question_def unbuilt_state_def)
  from missing_directory_503 [OF h, where w = demo_world and py = python_ascii] h
  show ?thesis by simp
qed

text \<open>
  The claim as the specification words it fails twice. With the directory missing, an
  empty batch fails with 400, not 503. And once a request has created the vector-store
  handle, a later request made after the directory has gone does not look at the
  directory again: it is answered.
\<close>

theorem missing_directory_counterexample:
  "persist_dir unbuilt_state = None \<and>
   fst (query_endpoint python_ascii demo_world unbuilt_state
          \<lparr>questions = [], default_top_k = None\<rparr>) =
     Inl (HTTPException 400 (ascii ''Payload must contain at least one question'')) \<and>
   persist_dir ((snd (query_endpoint python_ascii demo_world built_state one_question))
                  \<lparr>persist_dir := None\<rparr>) = None \<and>
   fst (query_endpoint python_ascii demo_world
          ((snd (query_endpoint python_ascii demo_world built_state one_question))
             \<lparr>persist_dir := None\<rparr>)
          one_question) =
     Inr [\<lparr>response_question_id = 1,
           relevant_chunks =
             [\<lparr>document_name = Some (ascii ''law.pdf''), page_number = Some 1\<rparr>],
           answer = AInt 42\<rparr>]"
  by (simp add: pipeline_eval demo_eval one_question_def str_eval num_eval)

text \<open>
  Claim C9. When the vector store is available and the similarity search returns no
  chunk, \<open>query_rag\<close> returns the fixed answer \<open>dont_know\<close> with an empty chunk list; the
  trace gains the retrieval call and no chat call, and the chat client's handle is as it
  was.
\<close>

theorem query_rag_empty_retrieval:
  assumes "get_vector_store w st = (Inr (), st1)"
    and "similarity_search w st1 q k = Inr []"
  shows "query_rag w st q k = (Inr (dont_know, []), log_event (Search q k) st1) \<and>
         trace (snd (query_rag w st q k)) = trace st @ [Search q k] \<and>
         chat_calls (trace (snd (query_rag w st q k))) = chat_calls (trace st) \<and>
         llm (snd (query_rag w st q k)) = llm st"
proof -
  from assms have r: "query_rag w st q k =
      (Inr (dont_know, []), log_event (Search q k) st1)"
    by (simp add: query_rag_def)
  from get_vector_store_frame [OF assms(1)] have "trace st1 = trace st" "llm st1 = llm st"
    by simp_all
  with r show ?thesis
    by (simp add: log_event_def chat_calls_append)
qed

theorem query_rag_empty_retrieval_witness:
  "get_vector_store empty_index_world built_state =
     (Inr (), built_state\<lparr>embeddings := True, vector_store := True\<rparr>) \<and>
   similarity_search empty_index_world
     (built_state\<lparr>embeddings := True, vector_store := True\<rparr>) (ascii ''q'') 5 = Inr [] \<and>
   fst (query_rag empty_index_world built_state (ascii ''q'') 5) =
     Inr ([1071, 32, 1085, 1077, 32, 1079, 1085, 1072, 1102], []) \<and>
   chat_calls (trace (snd (query_rag empty_index_world built_state (ascii ''q'') 5))) = []"
proof -
  have g: "get_vector_store empty_index_world built_state =
      (Inr (), built_state\<lparr>embeddings := True, vector_store := True\<rparr>)"
    by (simp add: get_vector_store_def get_embeddings_def demo_eval empty_index_world_def)
  have s: "similarity_search empty_index_world
      (built_state\<lparr>embeddings := True, vector_store := True\<rparr>) (ascii ''q'') 5 = Inr []"
    by (simp add: demo_eval empty_index_world_def)
  have t: "chat_calls (trace built_state) = []"
    by (simp add: built_state_def)
  from query_rag_empty_retrieval [OF g s] t
  have "fst (query_rag empty_index_world built_state (ascii ''q'') 5) = Inr (dont_know, [])"
    and "chat_calls (trace (snd (query_rag empty_index_world built_state (ascii ''q'') 5))) = []"
    by (simp_all add: log_event_def built_state_def)
  with g s show ?thesis
    by (simp add: dont_know_def)
qed

text \<open>
  Claim C4, as the code has it. The retrieval calls of a request are made for its
  questions in order, up to the question at which it fails, and the result count of each
  is the question's own \<open>top_k\<close> when it is given and not zero, otherwise the batch's
  \<open>default_top_k\<close> when it is given and not zero, otherwise 5. When the endpoint returns
  its responses, every question had its retrieval call.
\<close>

theorem top_k_passed_to_retrieval:
  "\<exists>n \<le> length (questions payload).
     search_calls (trace (snd (query_endpoint py w st payload))) =
       search_calls (trace st) @
       map (\<lambda>item.
              (question item,
               if top_k item \<noteq> None \<and> top_k item \<noteq> Some 0 then the (top_k item)
               else if default_top_k payload \<noteq> None \<and> default_top_k payload \<noteq> Some 0
                    then the (default_top_k payload)
                    else 5))
           (take n (questions payload)) \<and>
     (\<forall>rs. fst (query_endpoint py w st payload) = Inr rs \<longrightarrow> n = length (questions payload))"
proof -
  let ?fb = "or_int (default_top_k payload) 5"
  let ?f = "\<lambda>item. (question item, or_int (top_k item) ?fb)"
  let ?g = "\<lambda>item.
              (question item,
               if top_k item \<noteq> None \<and> top_k item \<noteq> Some 0 then the (top_k item)
               else if default_top_k payload \<noteq> None \<and> default_top_k payload \<noteq> Some 0
                    then the (default_top_k payload)
                    else 5)"
  have fg: "?f = ?g"
    by (rule ext) (auto simp: or_int_def split: option.splits)
  show ?thesis
  proof (cases "questions payload = []")
    case True
    then show ?thesis by (simp add: query_endpoint_def)
  next
    case False
    obtain res st1 where
      e: "endpoint_loop py w ?fb st [] (questions payload) = (res, st1)"
      by (cases "endpoint_loop py w ?fb st [] (questions payload)")
    with False have qe: "query_endpoint py w st payload = (res, st1)"
      by (simp add: query_endpoint_def)
    show ?thesis
    proof (cases res)
      case (Inl err)
      from endpoint_loop_calls [OF e] obtain n where
        "n \<le> length (questions payload)"
        "search_calls (trace st1) = search_calls (trace st) @ map ?f (take n (questions payload))"
        by blast
      with Inl qe show ?thesis
        unfolding fg by auto
    next
      case (Inr out)
      with e have "endpoint_loop py w ?fb st [] (questions payload) = (Inr out, st1)"
        by simp
      from endpoint_loop_ok [OF this]
      have "search_calls (trace st1) = search_calls (trace st) @ map ?f (questions payload)"
        by simp
      then have "search_calls (trace st1) =
          search_calls (trace st) @
          map ?f (take (length (questions payload)) (questions payload))"
        by simp
      with qe show ?thesis
        unfolding fg by (intro exI [of _ "length (questions payload)"]) simp
    qed
  qed
qed

theorem top_k_passed_to_retrieval_witness:
  "fst (query_endpoint python_ascii demo_world built_state two_questions) =
     Inr [\<lparr>response_question_id = 7,
           relevant_chunks =
             [\<lparr>document_name = Some (ascii ''law.pdf''), page_number = Some 1\<rparr>],
           answer = AInt 42\<rparr>,
          \<lparr>response_question_id = 4,
           relevant_chunks =
             [\<lparr>document_name = Some (ascii ''law.pdf''), page_number = Some 1\<rparr>],
           answer = AInt 42\<rparr>] \<and>
   search_calls (trace (snd (query_endpoint python_ascii demo_world built_state two_questions))) =
     [(ascii ''first'', 3), (ascii ''second'', 2)]"
proof -
  have r: "fst (query_endpoint python_ascii demo_world built_state two_questions) =
     Inr [\<lparr>response_question_id = 7,
           relevant_chunks =
             [\<lparr>document_name = Some (ascii ''law.pdf''), page_number = Some 1\<rparr>],
           answer = AInt 42\<rparr>,
          \<lparr>response_question_id = 4,
           relevant_chunks =
             [\<lparr>document_name = Some (ascii ''law.pdf''), page_number = Some 1\<rparr>],
           answer = AInt 42\<rparr>]"
    by (simp add: pipeline_eval demo_eval two_questions_def str_eval num_eval)
  from top_k_passed_to_retrieval [of two_questions python_ascii demo_world built_state]
  obtain n where n: "n \<le> length (questions two_questions)"
    "search_calls (trace (snd (query_endpoint python_ascii demo_world built_state two_questions))) =
       search_calls (trace built_state) @
       map (\<lambda>item.
              (question item,
               if top_k item \<noteq> None \<and> top_k item \<noteq> Some 0 then the (top_k item)
               else if default_top_k two_questions \<noteq> None \<and> default_top_k two_questions \<noteq> Some 0
                    then the (default_top_k two_questions)
                    else 5))
           (take n (questions two_questions))"
    "\<forall>rs. fst (query_endpoint python_ascii demo_world built_state two_questions) = Inr rs \<longrightarrow>
       n = length (questions two_questions)"
    by blast
  from n(3) r have "n = 2" by (simp add: two_questions_def)
  with n(2) have "search_calls (trace (snd (query_endpoint python_ascii demo_world built_state two_questions))) =
     [(ascii ''first'', 3), (ascii ''second'', 2)]"
    by (simp add: two_questions_def ask_def built_state_def)
  with r show ?thesis by simp
qed

text \<open>
  The claim as the specification words it fails for a question that gives \<open>top_k = 0\<close>:
  retrieval is called with 5, not with the question's own value.
\<close>

theorem top_k_zero_counterexample:
  "map top_k (questions zero_top_k) = [Some 0] \<and>
   search_calls (trace (snd (query_endpoint python_ascii demo_world built_state zero_top_k))) =
     [(ascii ''q'', 5)]"
  by (simp add: pipeline_eval demo_eval zero_top_k_def str_eval num_eval)

text \<open>
  Claim C7. When the endpoint returns, it returns one response per question, in the
  order of the questions, each with the \<open>question_id\<close> of its question; and the retrieval
  calls of the request were made for the questions in that order, one per question.
\<close>

theorem one_response_per_question:
  assumes "query_endpoint py w st payload = (Inr rs, st1)"
  shows "questions payload \<noteq> [] \<and>
         length rs = length (questions payload) \<and>
         map response_question_id rs = map question_id (questions payload) \<and>
         map fst (search_calls (trace st1)) =
           map fst (search_calls (trace st)) @ map question (questions payload)"
proof -
  from assms have ne: "questions payload \<noteq> []"
    by (auto simp: query_endpoint_def split: if_splits)
  with assms have
    "endpoint_loop py w (or_int (default_top_k payload) 5) st [] (questions payload) = (Inr rs, st1)"
    by (simp add: query_endpoint_def)
  from endpoint_loop_ok [OF this]
  have ids: "map response_question_id rs = map question_id (questions payload)"
    and sc: "search_calls (trace st1) =
       search_calls (trace st) @
       map (\<lambda>i. (question i, or_int (top_k i) (or_int (default_top_k payload) 5)))
         (questions payload)"
    by simp_all
  from ids have "length (map response_question_id rs) = length (map question_id (questions payload))"
    by simp
  then have len: "length rs = length (questions payload)" by simp
  from sc have "map fst (search_calls (trace st1)) =
      map fst (search_calls (trace st)) @ map question (questions payload)"
    by (simp add: comp_def)
  with ne ids len show ?thesis by simp
qed

theorem one_response_per_question_witness:
  "query_endpoint python_ascii demo_world built_state two_questions =
     (Inr [\<lparr>response_question_id = 7,
            relevant_chunks =
              [\<lparr>document_name = Some (ascii ''law.pdf''), page_number = Some 1\<rparr>],
            answer = AInt 42\<rparr>,
           \<lparr>response_question_id = 4,
            relevant_chunks =
              [\<lparr>document_name = Some (ascii ''law.pdf''), page_number = Some 1\<rparr>],
            answer = AInt 42\<rparr>],
      snd (query_endpoint python_ascii demo_world built_state two_questions)) \<and>
   map question_id (questions two_questions) = [7, 4] \<and>
   map fst (search_calls
     (trace (snd (query_endpoint python_ascii demo_world built_state two_questions)))) =
     [ascii ''first'', ascii ''second'']"
proof -
  let ?out = "[\<lparr>response_question_id = 7,
            relevant_chunks =
              [\<lparr>document_name = Some (ascii ''law.pdf''), page_number = Some 1\<rparr>],
            answer = AInt 42\<rparr>,
           \<lparr>response_question_id = 4,
            relevant_chunks =
              [\<lparr>document_name = Some (ascii ''law.pdf''), page_number = Some 1\<rparr>],
            answer = AInt (42::int)\<rparr>] :: pyfloat query_response list"
  have "fst (query_endpoint python_ascii demo_world built_state two_questions) = Inr ?out"
    by (simp add: pipeline_eval demo_eval two_questions_def str_eval num_eval)
  then have r: "query_endpoint python_ascii demo_world built_state two_questions =
      (Inr ?out, snd (query_endpoint python_ascii demo_world built_state two_questions))"
    by (metis prod.collapse)
  from one_response_per_question [OF r]
  have "map fst (search_calls
     (trace (snd (query_endpoint python_ascii demo_world built_state two_questions)))) =
     map fst (search_calls (trace built_state)) @ map question (questions two_questions)"
    by blast
  then have "map fst (search_calls
     (trace (snd (query_endpoint python_ascii demo_world built_state two_questions)))) =
     [ascii ''first'', ascii ''second'']"
    by (simp add: two_questions_def ask_def built_state_def)
  moreover have "map question_id (questions two_questions) = [7, 4]"
    by (simp add: two_questions_def ask_def)
  ultimately show ?thesis using r by simp
qed

subsection \<open>Deduplication of chunk metadata\<close>









subsection \<open>Ingestion drops short pages\<close>

lemma pdf_loop_enumerate:
  "pdf_loop path i docs (map Inr extracted) =
     Inr (docs @
          map (\<lambda>(j, t). pdf_page_document path j t)
            (filter (\<lambda>(j, t). MIN_CHARS_PER_PAGE \<le> length t)
               (enumerate_from i (map page_text extracted))))"
proof (induction extracted arbitrary: i docs)
  case Nil
  then show ?case by simp
next
  case (Cons x xs)
  then show ?case by (simp add: Let_def)
qed

lemma pdf_loop_long:
  "pdf_loop path i docs pages = Inr out \<Longrightarrow>
   \<forall>d \<in> set docs. MIN_CHARS_PER_PAGE \<le> length (page_content d) \<Longrightarrow>
   \<forall>d \<in> set out. MIN_CHARS_PER_PAGE \<le> length (page_content d)"
proof (induction pages arbitrary: i docs)
  case Nil
  then show ?case by simp
next
  case (Cons p ps)
  show ?case
  proof (cases p)
    case (Inl e)
    with Cons.prems show ?thesis by simp
  next
    case (Inr extracted)
    show ?thesis
    proof (cases "length (page_text extracted) < MIN_CHARS_PER_PAGE")
      case True
      with Inr Cons.prems have "pdf_loop path (i + 1) docs ps = Inr out"
        by (simp add: Let_def)
      from Cons.IH [OF this Cons.prems(2)] show ?thesis .
    next
      case False
      let ?docs = "docs @ [pdf_page_document path i (page_text extracted)]"
      from False Inr Cons.prems have l: "pdf_loop path (i + 1) ?docs ps = Inr out"
        by (simp add: Let_def)
      from False Cons.prems(2)
      have "\<forall>d \<in> set ?docs. MIN_CHARS_PER_PAGE \<le> length (page_content d)"
        by (auto simp: pdf_page_document_def)
      from Cons.IH [OF l this] show ?thesis .
    qed
  qed
qed

lemma load_pdf_document_long:
  "load_pdf_document w path = Inr out \<Longrightarrow>
   \<forall>d \<in> set out. MIN_CHARS_PER_PAGE \<le> length (page_content d)"
  by (auto simp: load_pdf_document_def split: if_splits sum.splits dest!: pdf_loop_long)

lemma load_text_document_long:
  "load_text_document path = Inr out \<Longrightarrow>
   \<forall>d \<in> set out. MIN_CHARS_PER_PAGE \<le> length (page_content d)"
  by (auto simp: load_text_document_def Let_def split: if_splits sum.splits)

lemma load_loop_long:
  "\<forall>d \<in> set docs. MIN_CHARS_PER_PAGE \<le> length (page_content d) \<Longrightarrow>
   \<forall>d \<in> set (load_loop w docs files). MIN_CHARS_PER_PAGE \<le> length (page_content d)"
proof (induction files arbitrary: docs)
  case Nil
  then show ?case by simp
next
  case (Cons f fs)
  have ext: "\<And>out. \<forall>d \<in> set out. MIN_CHARS_PER_PAGE \<le> length (page_content d) \<Longrightarrow>
      \<forall>d \<in> set (load_loop w (docs @ out) fs). MIN_CHARS_PER_PAGE \<le> length (page_content d)"
    using Cons.prems by (intro Cons.IH) auto
  note same = Cons.IH [OF Cons.prems]
  have step: "\<forall>d \<in> set (case r of
                  Inl e \<Rightarrow> load_loop w docs fs
                | Inr loaded \<Rightarrow>
                    if loaded = [] then load_loop w docs fs
                    else load_loop w (docs @ loaded) fs).
                MIN_CHARS_PER_PAGE \<le> length (page_content d)"
    if "\<And>out. r = Inr out \<Longrightarrow> \<forall>d \<in> set out. MIN_CHARS_PER_PAGE \<le> length (page_content d)"
    for r :: "pyexn + document list"
  proof (cases r)
    case (Inl e)
    with same show ?thesis by simp
  next
    case (Inr loaded)
    with same ext [OF that [OF Inr]] show ?thesis by simp
  qed
  from step [of "load_pdf_document w f", OF load_pdf_document_long]
    step [of "load_text_document f", OF load_text_document_long] same
  show ?case by simp
qed

lemmas ingest_eval = load_legal_documents_def load_text_document_def load_pdf_document_def
  pdf_page_document_def page_text_def MIN_CHARS_PER_PAGE_def SUPPORTED_TEXT_EXTENSIONS_def
  relative_path_def source_type_of_def Let_def

lemmas library_eval = library_world_def demo_world_def short_txt_def long_txt_def law_pdf_def
  long_text_def other_text_def

lemma pdf_page_document_fields:
  "page_content (pdf_page_document path i t) = t \<and>
   metadata (pdf_page_document path i t) k_page_number = Some (PInt i) \<and>
   metadata (pdf_page_document path i t) k_document_name = Some (PStr (name path))"
  by (simp add: pdf_page_document_def k_document_name_def k_page_number_def k_source_path_def
      k_source_type_def ascii_def)

text \<open>
  Claim C5. A text file whose stripped text has fewer than 50 characters yields no
  Document; one with at least 50 yields one Document holding the stripped text. A PDF
  whose pages all extract yields exactly one Document for each page whose stripped text
  has at least 50 characters, holding that stripped text under the page's number counted
  from 1; a page whose stripped text is shorter yields none. Every Document that reaches
  chunking has at least 50 characters.
\<close>

theorem short_pages_dropped:
  "(read_text path = Inr raw \<and> length (strip raw) < 50 \<longrightarrow> load_text_document path = Inr []) \<and>
   (read_text path = Inr raw \<and> 50 \<le> length (strip raw) \<longrightarrow>
      (\<exists>d. load_text_document path = Inr [d] \<and> page_content d = strip raw \<and>
           metadata d k_page_number = Some (PInt 1))) \<and>
   (pypdf_available w \<and> pdf_pages path = Inr (map Inr extracted) \<longrightarrow>
      (\<exists>docs. load_pdf_document w path = Inr docs \<and>
         map (\<lambda>d. (metadata d k_page_number, page_content d)) docs =
           map (\<lambda>(i, t). (Some (PInt i), t))
             (filter (\<lambda>(i, t). 50 \<le> length t)
                (enumerate_from 1
                   (map (\<lambda>e. strip (case e of None \<Rightarrow> [] | Some s \<Rightarrow> s)) extracted))))) \<and>
   (\<forall>d \<in> set (load_legal_documents w). 50 \<le> length (page_content d))"
proof -
  let ?texts = "map (\<lambda>e. strip (case e of None \<Rightarrow> [] | Some s \<Rightarrow> s)) extracted"
  have a: "read_text path = Inr raw \<and> length (strip raw) < 50 \<longrightarrow>
      load_text_document path = Inr []"
    by (simp add: load_text_document_def MIN_CHARS_PER_PAGE_def)
  have a': "read_text path = Inr raw \<and> 50 \<le> length (strip raw) \<longrightarrow>
      (\<exists>d. load_text_document path = Inr [d] \<and> page_content d = strip raw \<and>
           metadata d k_page_number = Some (PInt 1))"
    by (simp add: load_text_document_def MIN_CHARS_PER_PAGE_def Let_def k_page_number_def
        k_source_type_def ascii_def)
  have pt: "map page_text extracted = ?texts"
    by (simp add: page_text_def)
  have b: "pypdf_available w \<and> pdf_pages path = Inr (map Inr extracted) \<longrightarrow>
      (\<exists>docs. load_pdf_document w path = Inr docs \<and>
         map (\<lambda>d. (metadata d k_page_number, page_content d)) docs =
           map (\<lambda>(i, t). (Some (PInt i), t))
             (filter (\<lambda>(i, t). 50 \<le> length t) (enumerate_from 1 ?texts)))"
  proof
    assume h: "pypdf_available w \<and> pdf_pages path = Inr (map Inr extracted)"
    let ?docs = "map (\<lambda>(j, t). pdf_page_document path j t)
        (filter (\<lambda>(j, t). 50 \<le> length t) (enumerate_from 1 ?texts))"
    from h pdf_loop_enumerate [of path 1 "[]" extracted]
    have "load_pdf_document w path = Inr ?docs"
      by (simp add: load_pdf_document_def MIN_CHARS_PER_PAGE_def pt)
    moreover have "map (\<lambda>d. (metadata d k_page_number, page_content d)) ?docs =
        map (\<lambda>(i, t). (Some (PInt i), t))
          (filter (\<lambda>(i, t). 50 \<le> length t) (enumerate_from 1 ?texts))"
      by (simp add: pdf_page_document_fields comp_def split_def)
    ultimately show "\<exists>docs. load_pdf_document w path = Inr docs \<and>
         map (\<lambda>d. (metadata d k_page_number, page_content d)) docs =
           map (\<lambda>(i, t). (Some (PInt i), t))
             (filter (\<lambda>(i, t). 50 \<le> length t) (enumerate_from 1 ?texts))"
      by blast
  qed
  have "\<forall>d \<in> set (load_legal_documents w). MIN_CHARS_PER_PAGE \<le> length (page_content d)"
    using load_loop_long [of "[]" w "data_dir_listing w"]
    by (simp add: load_legal_documents_def)
  then have c: "\<forall>d \<in> set (load_legal_documents w). 50 \<le> length (page_content d)"
    by (simp add: MIN_CHARS_PER_PAGE_def)
  from a a' b c show ?thesis by blast
qed

theorem short_pages_dropped_witness:
  "read_text padded_txt = Inr (ascii ''     '' @ letters49 @ ascii ''     '') \<and>
   length (ascii ''     '' @ letters49 @ ascii ''     '') = 59 \<and>
   strip (ascii ''     '' @ letters49 @ ascii ''     '') = letters49 \<and>
   length letters49 = 49 \<and>
   load_text_document padded_txt = Inr [] \<and>
   read_text long_txt = Inr long_text \<and> 50 \<le> length (strip long_text) \<and>
   map page_content (projr (load_text_document long_txt)) = [long_text] \<and>
   pypdf_available library_world \<and>
   pdf_pages padded_pdf =
     Inr (map Inr [Some (letters49 @ ascii ''          ''), Some ([32, 10] @ long_text @ [10, 32])]) \<and>
   length (letters49 @ ascii ''          '') = 59 \<and>
   map (\<lambda>d. (metadata d k_page_number, page_content d))
     (projr (load_pdf_document library_world padded_pdf)) = [(Some (PInt 2), long_text)] \<and>
   map (\<lambda>d. (metadata d k_page_number, page_content d))
     (projr (load_pdf_document library_world law_pdf)) =
     [(Some (PInt 1), long_text), (Some (PInt 4), other_text)] \<and>
   map page_content (load_legal_documents library_world) = [long_text, long_text, other_text] \<and>
   list_all (\<lambda>d. 50 \<le> length (page_content d)) (load_legal_documents library_world)"
proof -
  have s49: "strip (ascii ''     '' @ letters49 @ ascii ''     '') = letters49"
    "length letters49 = 49"
    "length (ascii ''     '' @ letters49 @ ascii ''     '') = 59"
    "length (letters49 @ ascii ''          '') = 59"
    by (simp_all add: letters49_def str_eval)
  have a: "read_text padded_txt = Inr (ascii ''     '' @ letters49 @ ascii ''     '')"
    by (simp add: padded_txt_def)
  from s49 have a2: "length (strip (ascii ''     '' @ letters49 @ ascii ''     '')) < 50"
    by simp
  note inst = short_pages_dropped [where path = padded_txt
      and raw = "ascii ''     '' @ letters49 @ ascii ''     ''" and w = library_world]
  from inst a a2 have t: "load_text_document padded_txt = Inr []"
    by blast
  have l: "read_text long_txt = Inr long_text" "strip long_text = long_text"
    "50 \<le> length (strip long_text)"
    by (simp_all add: long_txt_def long_text_def str_eval)
  from short_pages_dropped [where path = long_txt and raw = long_text] l
  obtain d where "load_text_document long_txt = Inr [d]" "page_content d = strip long_text"
    by blast
  with l have lt: "map page_content (projr (load_text_document long_txt)) = [long_text]"
    by simp
  have b: "pypdf_available library_world"
    "pdf_pages padded_pdf =
       Inr (map Inr [Some (letters49 @ ascii ''          ''), Some ([32, 10] @ long_text @ [10, 32])])"
    "pdf_pages law_pdf =
       Inr (map Inr [Some long_text, Some (ascii ''12''), None, Some other_text])"
    by (simp_all add: library_eval padded_pdf_def)
  have st: "strip (letters49 @ ascii ''          '') = letters49"
    "strip ([32, 10] @ long_text @ [10, 32]) = long_text"
    "strip (32 # 10 # long_text @ [10, 32]) = long_text"
    "strip long_text = long_text" "strip other_text = other_text"
    "strip (ascii ''12'') = ascii ''12''" "strip [49, 50] = [49, 50]" "strip [] = []"
    "length long_text = 63" "length other_text = 61"
    by (simp_all add: letters49_def long_text_def other_text_def str_eval)
  from short_pages_dropped [where path = padded_pdf and w = library_world
      and extracted = "[Some (letters49 @ ascii ''          ''), Some ([32, 10] @ long_text @ [10, 32])]"]
    b
  obtain docs where "load_pdf_document library_world padded_pdf = Inr docs"
    "map (\<lambda>d. (metadata d k_page_number, page_content d)) docs =
       map (\<lambda>(i, t). (Some (PInt i), t))
         (filter (\<lambda>(i, t). 50 \<le> length t)
            (enumerate_from 1
               (map (\<lambda>e. strip (case e of None \<Rightarrow> [] | Some s \<Rightarrow> s))
                  [Some (letters49 @ ascii ''          ''), Some ([32, 10] @ long_text @ [10, 32])])))"
    by blast
  then have p1: "map (\<lambda>d. (metadata d k_page_number, page_content d))
     (projr (load_pdf_document library_world padded_pdf)) = [(Some (PInt 2), long_text)]"
    by (simp add: st s49)
  from short_pages_dropped [where path = law_pdf and w = library_world
      and extracted = "[Some long_text, Some (ascii ''12''), None, Some other_text]"]
    b
  obtain docs2 where "load_pdf_document library_world law_pdf = Inr docs2"
    "map (\<lambda>d. (metadata d k_page_number, page_content d)) docs2 =
       map (\<lambda>(i, t). (Some (PInt i), t))
         (filter (\<lambda>(i, t). 50 \<le> length t)
            (enumerate_from 1
               (map (\<lambda>e. strip (case e of None \<Rightarrow> [] | Some s \<Rightarrow> s))
                  [Some long_text, Some (ascii ''12''), None, Some other_text])))"
    by blast
  then have p2: "map (\<lambda>d. (metadata d k_page_number, page_content d))
     (projr (load_pdf_document library_world law_pdf)) =
     [(Some (PInt 1), long_text), (Some (PInt 4), other_text)]"
    by (simp add: st ascii_def)
  have ll: "map page_content (load_legal_documents library_world) =
      [long_text, long_text, other_text]"
    by (simp add: ingest_eval library_eval str_eval)
  from inst have "\<forall>d \<in> set (load_legal_documents library_world). 50 \<le> length (page_content d)"
    by blast
  then have "list_all (\<lambda>d. 50 \<le> length (page_content d)) (load_legal_documents library_world)"
    by (simp add: list_all_iff)
  with s49 a t l lt b(1,2) p1 p2 ll show ?thesis by simp
qed

subsection \<open>Rebuilding the persisted directory\<close>

text \<open>
  Claim C3, as the code has it. An ingestion run that loads no document page leaves the
  persisted directory as it is. A run that loads at least one page, whose splitter and
  embedding client do not raise, deletes the existing directory and creates an empty one
  before indexing: the directory then holds what \<open>Chroma.from_documents\<close> writes into
  an empty directory, whatever it held before the run.
\<close>

theorem build_vector_store_rebuilds:
  "(load_legal_documents w = [] \<longrightarrow> build_vector_store w st = (Inr (), st)) \<and>
   (load_legal_documents w \<noteq> [] \<and>
    split_documents w (load_legal_documents w) = Inr chunks \<and>
    openai_embeddings_init w st = None \<longrightarrow>
      mkdir_persist_dir (clear_persist_dir st) = st\<lparr>persist_dir := Some []\<rparr> \<and>
      persist_dir (snd (build_vector_store w st)) =
        Some (snd (chroma_from_documents w [] chunks)) \<and>
      fst (build_vector_store w st) =
        (case fst (chroma_from_documents w [] chunks) of None \<Rightarrow> Inr () | Some e \<Rightarrow> Inl e))"
proof -
  have fresh: "mkdir_persist_dir (clear_persist_dir st) = st\<lparr>persist_dir := Some []\<rparr>"
    by (cases "persist_dir st") (simp_all add: mkdir_persist_dir_def clear_persist_dir_def)
  show ?thesis
    by (auto simp: build_vector_store_def Let_def fresh dir_contents_def
        split: prod.splits option.splits)
qed

theorem build_vector_store_rebuilds_witness:
  "map page_content (load_legal_documents library_world) = [long_text, long_text, other_text] \<and>
   map_option (map page_content) (persist_dir built_state) = Some [ascii ''Article 1''] \<and>
   fst (build_vector_store library_world built_state) = Inr () \<and>
   map_option (map page_content) (persist_dir (snd (build_vector_store library_world built_state))) =
     Some [long_text, long_text, other_text] \<and>
   build_vector_store demo_world built_state = (Inr (), built_state)"
proof -
  have l: "map page_content (load_legal_documents library_world) =
      [long_text, long_text, other_text]"
    by (simp add: ingest_eval library_eval str_eval)
  then have ne: "load_legal_documents library_world \<noteq> []"
    by auto
  have sp: "split_documents library_world (load_legal_documents library_world) =
      Inr (load_legal_documents library_world)"
    by (simp add: library_world_def demo_world_def)
  have em: "openai_embeddings_init library_world built_state = None"
    by (simp add: library_world_def demo_world_def)
  have ch: "chroma_from_documents library_world [] (load_legal_documents library_world) =
      (None, load_legal_documents library_world)"
    by (simp add: library_world_def demo_world_def)
  have old: "map_option (map page_content) (persist_dir built_state) = Some [ascii ''Article 1'']"
    by (simp add: built_state_def law_chunk_def)
  have e: "load_legal_documents demo_world = []"
    by (simp add: load_legal_documents_def demo_world_def)
  note inst = build_vector_store_rebuilds [where w = library_world and st = built_state
      and chunks = "load_legal_documents library_world"]
  from inst ne sp em have
    "persist_dir (snd (build_vector_store library_world built_state)) =
       Some (snd (chroma_from_documents library_world [] (load_legal_documents library_world)))"
    "fst (build_vector_store library_world built_state) =
       (case fst (chroma_from_documents library_world [] (load_legal_documents library_world)) of
          None \<Rightarrow> Inr () | Some e \<Rightarrow> Inl e)"
    by blast+
  with ch l have r: "fst (build_vector_store library_world built_state) = Inr ()"
    "map_option (map page_content)
       (persist_dir (snd (build_vector_store library_world built_state))) =
     Some [long_text, long_text, other_text]"
    by simp_all
  from build_vector_store_rebuilds [where w = demo_world and st = built_state] e
  have "build_vector_store demo_world built_state = (Inr (), built_state)"
    by blast
  with l old r show ?thesis by simp
qed

text \<open>
  The claim as the specification words it fails on a run that finds the data directory
  empty: the directory of the previous run is neither deleted nor recreated, and its
  contents survive the run.
\<close>

theorem build_vector_store_counterexample:
  "data_dir_listing demo_world = [] \<and>
   map_option (map page_content) (persist_dir built_state) = Some [ascii ''Article 1''] \<and>
   build_vector_store demo_world built_state = (Inr (), built_state) \<and>
   persist_dir (snd (build_vector_store demo_world built_state)) = persist_dir built_state"
  by (simp add: build_vector_store_def load_legal_documents_def demo_world_def built_state_def
      law_chunk_def)

subsection \<open>The key is checked when the program starts\<close>

text \<open>
  Claim C8, as the code has it. If the key is absent from the environment or is the empty
  string, the import of \<open>api\<close> raises \<open>ValueError\<close>, and then neither the ingestion
  script nor the server does anything: the state stays as it was. If the key is present
  and not empty, the import yields the key, the ingestion script runs
  \<open>build_vector_store\<close> and the server serves its requests.
\<close>

theorem api_key_checked_at_startup:
  "(getenv_openai_api_key w = None \<or> getenv_openai_api_key w = Some [] \<longrightarrow>
      api_module w = Inl (ValueError key_not_found) \<and>
      rag_data_main w st = (Inl (ValueError key_not_found), st) \<and>
      rag_api_main py w st requests = (Inl (ValueError key_not_found), st)) \<and>
   (getenv_openai_api_key w = Some openai_key \<and> openai_key \<noteq> [] \<longrightarrow>
      api_module w = Inr openai_key \<and>
      rag_data_main w st = build_vector_store w st \<and>
      rag_api_main py w st requests =
        (Inr (fst (serve py w st requests)), snd (serve py w st requests)))"
  by (auto simp: api_module_def rag_data_main_def rag_api_main_def split: prod.splits)

theorem api_key_checked_at_startup_witness:
  "getenv_openai_api_key unbuilt_world = None \<and>
   api_module unbuilt_world = Inl (ValueError key_not_found) \<and>
   rag_data_main unbuilt_world built_state = (Inl (ValueError key_not_found), built_state) \<and>
   rag_api_main python_ascii unbuilt_world built_state [one_question] =
     (Inl (ValueError key_not_found), built_state) \<and>
   getenv_openai_api_key demo_world = Some (ascii ''sk-test'') \<and>
   api_module demo_world = Inr (ascii ''sk-test'') \<and>
   fst (rag_api_main python_ascii demo_world built_state [one_question]) =
     Inr [Inr [\<lparr>response_question_id = 1,
                relevant_chunks =
                  [\<lparr>document_name = Some (ascii ''law.pdf''), page_number = Some 1\<rparr>],
                answer = AInt 42\<rparr>]]"
proof -
  have n: "getenv_openai_api_key unbuilt_world = None"
    by (simp add: unbuilt_world_def demo_world_def)
  have s: "getenv_openai_api_key demo_world = Some (ascii ''sk-test'')"
    "ascii ''sk-test'' \<noteq> []"
    by (simp_all add: demo_world_def ascii_def)
  have q: "fst (query_endpoint python_ascii demo_world built_state one_question) =
     Inr [\<lparr>response_question_id = 1,
           relevant_chunks =
             [\<lparr>document_name = Some (ascii ''law.pdf''), page_number = Some 1\<rparr>],
           answer = AInt 42\<rparr>]"
    by (simp add: pipeline_eval demo_eval one_question_def str_eval num_eval)
  from api_key_checked_at_startup [where w = unbuilt_world and st = built_state
      and py = python_ascii and requests = "[one_question]"] n
  have a: "api_module unbuilt_world = Inl (ValueError key_not_found)"
    "rag_data_main unbuilt_world built_state = (Inl (ValueError key_not_found), built_state)"
    "rag_api_main python_ascii unbuilt_world built_state [one_question] =
       (Inl (ValueError key_not_found), built_state)"
    by blast+
  from api_key_checked_at_startup [where w = demo_world and openai_key = "ascii ''sk-test''"
      and st = built_state and py = python_ascii and requests = "[one_question]"] s
  have b: "api_module demo_world = Inr (ascii ''sk-test'')"
    "rag_api_main python_ascii demo_world built_state [one_question] =
       (Inr (fst (serve python_ascii demo_world built_state [one_question])),
        snd (serve python_ascii demo_world built_state [one_question]))"
    by blast+
  from b(2) q have "fst (rag_api_main python_ascii demo_world built_state [one_question]) =
     Inr [Inr [\<lparr>response_question_id = 1,
                relevant_chunks =
                  [\<lparr>document_name = Some (ascii ''law.pdf''), page_number = Some 1\<rparr>],
                answer = AInt 42\<rparr>]]"
    by (simp split: prod.splits)
  with n s a b(1) show ?thesis by simp
qed

text \<open>
  The claim as the specification words it fails when the variable is present and empty:
  the key is in the environment, and start-up raises all the same.
\<close>

theorem empty_key_counterexample:
  "getenv_openai_api_key empty_key_world = Some [] \<and>
   getenv_openai_api_key empty_key_world \<noteq> None \<and>
   api_module empty_key_world = Inl (ValueError key_not_found) \<and>
   rag_data_main empty_key_world built_state = (Inl (ValueError key_not_found), built_state) \<and>
   rag_api_main python_ascii empty_key_world built_state [one_question] =
     (Inl (ValueError key_not_found), built_state)"
  by (simp add: empty_key_world_def demo_world_def api_module_def rag_data_main_def
      rag_api_main_def)

subsection \<open>The answer placed in the response\<close>

lemma pipeline_answers_stripped:
  "\<forall>raw \<in> set (pipeline_answers w fb st items). strip raw = raw"
proof (induction items arbitrary: st)
  case Nil
  then show ?case by simp
next
  case (Cons item items)
  obtain r s1 where q: "query_rag w st (question item) (or_int (top_k item) fb) = (r, s1)"
    by (cases "query_rag w st (question item) (or_int (top_k item) fb)")
  show ?case
  proof (cases r)
    case (Inl e)
    with q show ?thesis by simp
  next
    case (Inr ac)
    obtain ans chunks where ac: "ac = (ans, chunks)" by (cases ac)
    from q Inr ac have "fst (query_rag w st (question item) (or_int (top_k item) fb)) =
        Inr (ans, chunks)"
      by simp
    then have "strip ans = ans" by (rule query_rag_answer_stripped)
    with q Inr ac Cons.IH [of s1] show ?thesis by simp
  qed
qed

lemma endpoint_loop_answers:
  "endpoint_loop py w fb st rs items = (Inr out, st1) \<Longrightarrow>
     map answer out = map answer rs @ map (coerce_answer py) (pipeline_answers w fb st items)"
proof (induction items arbitrary: st rs)
  case Nil
  then show ?case by simp
next
  case (Cons item items)
  obtain r s1 where q: "query_rag w st (question item) (or_int (top_k item) fb) = (r, s1)"
    by (cases "query_rag w st (question item) (or_int (top_k item) fb)")
  show ?case
  proof (cases r)
    case (Inl e)
    with q Cons.prems show ?thesis by (simp add: Let_def)
  next
    case (Inr ac)
    obtain ans chunks where ac: "ac = (ans, chunks)" by (cases ac)
    from q Inr ac have ok: "query_rag w st (question item) (or_int (top_k item) fb) =
        (Inr (ans, chunks), s1)"
      by simp
    show ?thesis
    proof (cases "relevant_chunks_of w (collect_chunk_metadata chunks)")
      case (Inl e)
      with ok Cons.prems show ?thesis by (simp add: Let_def)
    next
      case rc: (Inr rcs)
      let ?rs' = "rs @ [\<lparr>response_question_id = question_id item, relevant_chunks = rcs,
                         answer = coerce_answer py ans\<rparr>]"
      from rc ok Cons.prems have "endpoint_loop py w fb s1 ?rs' items = (Inr out, st1)"
        by (simp add: Let_def)
      from Cons.IH [OF this] ok show ?thesis by simp
    qed
  qed
qed

text \<open>
  Claim C1, as the code has it. Let the builtins reject the empty text, as \<open>int()\<close> and
  \<open>float()\<close> do, and let the endpoint return its responses. Then there is one response
  per answer string of the pipeline, in order. Each answer string is its own trimmed
  text, and the \<open>answer\<close> field of its response is: the integer the string parses to when
  it parses as an integer; otherwise the floating-point value of the string with every
  comma replaced by a full stop, when that text parses as floating-point; otherwise the
  string itself. For any string, trimmed or not, \<open>coerce_answer\<close> decides by the trimmed
  text. When the chat model answers \<open>3\<close>, the response carries the integer 3.
\<close>

theorem response_answer_coerced:
  assumes "int_of_str py [] = None" and "float_of_str py [] = None"
    and "query_endpoint py w st payload = (Inr rs, st1)"
    and "raws = pipeline_answers w (or_int (default_top_k payload) 5) st (questions payload)"
  shows "length raws = length rs \<and>
         (\<forall>i < length rs.
            strip (raws ! i) = raws ! i \<and>
            (\<forall>n. int_of_str py (raws ! i) = Some n \<longrightarrow> answer (rs ! i) = AInt n) \<and>
            (\<forall>f. int_of_str py (raws ! i) = None \<and>
                 float_of_str py (replace_comma (raws ! i)) = Some f \<longrightarrow>
                   answer (rs ! i) = AFloat f) \<and>
            (int_of_str py (raws ! i) = None \<and>
             float_of_str py (replace_comma (raws ! i)) = None \<longrightarrow>
               answer (rs ! i) = AStr (raws ! i))) \<and>
         (\<forall>raw n. int_of_str py (strip raw) = Some n \<longrightarrow> coerce_answer py raw = AInt n) \<and>
         (\<forall>raw f. int_of_str py (strip raw) = None \<and>
                  float_of_str py (replace_comma (strip raw)) = Some f \<longrightarrow>
                    coerce_answer py raw = AFloat f) \<and>
         (\<forall>raw. int_of_str py (strip raw) = None \<and>
                float_of_str py (replace_comma (strip raw)) = None \<longrightarrow>
                  coerce_answer py raw = AStr (strip raw)) \<and>
         map answer
           (projr (fst (query_endpoint python_ascii three_world built_state one_question))) =
           [AInt 3]"
proof -
  have three: "map answer
      (projr (fst (query_endpoint python_ascii three_world built_state one_question))) =
      [AInt 3]"
    by (simp add: pipeline_eval demo_eval one_question_def three_world_def str_eval num_eval)
  note cases = coerce_answer_raw_cases [OF assms(1,2)]
  from assms(3) have ne: "questions payload \<noteq> []"
    by (auto simp: query_endpoint_def split: if_splits)
  with assms(3) have
    "endpoint_loop py w (or_int (default_top_k payload) 5) st [] (questions payload) = (Inr rs, st1)"
    by (simp add: query_endpoint_def)
  from endpoint_loop_answers [OF this] assms(4)
  have m: "map answer rs = map (coerce_answer py) raws"
    by simp
  then have "length (map answer rs) = length (map (coerce_answer py) raws)"
    by simp
  then have len: "length raws = length rs"
    by simp
  have each: "strip (raws ! i) = raws ! i \<and> answer (rs ! i) = coerce_answer py (raws ! i)"
    if "i < length rs" for i
  proof -
    from that len have i: "i < length raws" by simp
    then have "raws ! i \<in> set raws" by simp
    with pipeline_answers_stripped [of w "or_int (default_top_k payload) 5" st "questions payload"]
      assms(4)
    have s: "strip (raws ! i) = raws ! i" by blast
    from that have "answer (rs ! i) = map answer rs ! i" by simp
    also from m have "\<dots> = map (coerce_answer py) raws ! i" by simp
    also from i have "\<dots> = coerce_answer py (raws ! i)" by simp
    finally show ?thesis using s by simp
  qed
  have per: "strip (raws ! i) = raws ! i \<and>
      (\<forall>n. int_of_str py (raws ! i) = Some n \<longrightarrow> answer (rs ! i) = AInt n) \<and>
      (\<forall>f. int_of_str py (raws ! i) = None \<and>
           float_of_str py (replace_comma (raws ! i)) = Some f \<longrightarrow>
             answer (rs ! i) = AFloat f) \<and>
      (int_of_str py (raws ! i) = None \<and>
       float_of_str py (replace_comma (raws ! i)) = None \<longrightarrow>
         answer (rs ! i) = AStr (raws ! i))"
    if "i < length rs" for i
  proof -
    from each [OF that] have s: "strip (raws ! i) = raws ! i"
      and a: "answer (rs ! i) = coerce_answer py (raws ! i)"
      by simp_all
    from cases [of "raws ! i"] show ?thesis
      unfolding s a by blast
  qed
  from len per cases three show ?thesis by blast
qed

theorem response_answer_coerced_witness:
  "int_of_str python_ascii [] = None \<and> float_of_str python_ascii [] = None \<and>
   pipeline_answers three_world 5 built_state (questions one_question) = [ascii ''3''] \<and>
   int_of_str python_ascii (ascii ''3'') = Some 3 \<and>
   map answer (projr (fst (query_endpoint python_ascii three_world built_state one_question))) =
     [AInt 3] \<and>
   pipeline_answers words_world 5 built_state (questions one_question) = [ascii ''No.''] \<and>
   int_of_str python_ascii (ascii ''No.'') = None \<and>
   float_of_str python_ascii (replace_comma (ascii ''No.'')) = None \<and>
   map answer (projr (fst (query_endpoint python_ascii words_world built_state one_question))) =
     [AStr (ascii ''No.'')] \<and>
   coerce_answer python_ascii (ascii '' 2.5e3 '') = AFloat (Decimal False 25 2)"
proof -
  have e: "int_of_str python_ascii [] = None" "float_of_str python_ascii [] = None"
    by (simp_all add: str_eval num_eval)
  have d: "or_int (default_top_k one_question) 5 = 5"
    by (simp add: one_question_def or_int_def)
  have p3: "pipeline_answers three_world 5 built_state (questions one_question) = [ascii ''3'']"
    by (simp add: pipeline_eval demo_eval one_question_def three_world_def str_eval)
  have pw: "pipeline_answers words_world 5 built_state (questions one_question) = [ascii ''No.'']"
    by (simp add: pipeline_eval demo_eval one_question_def words_world_def str_eval)
  have i3: "int_of_str python_ascii (ascii ''3'') = Some 3"
    by (simp add: str_eval num_eval)
  have iw: "int_of_str python_ascii (ascii ''No.'') = None"
    "float_of_str python_ascii (replace_comma (ascii ''No.'')) = None"
    by (simp_all add: str_eval num_eval)
  have f: "int_of_str python_ascii (strip (ascii '' 2.5e3 '')) = None"
    "float_of_str python_ascii (replace_comma (strip (ascii '' 2.5e3 ''))) =
       Some (Decimal False 25 2)"
    by (simp_all add: str_eval num_eval)
  obtain r3 s3 where q3: "query_endpoint python_ascii three_world built_state one_question =
      (Inr r3, s3)"
    by (cases "query_endpoint python_ascii three_world built_state one_question")
      (simp add: pipeline_eval demo_eval one_question_def three_world_def str_eval num_eval)
  obtain rw sw where qw: "query_endpoint python_ascii words_world built_state one_question =
      (Inr rw, sw)"
    by (cases "query_endpoint python_ascii words_world built_state one_question")
      (simp add: pipeline_eval demo_eval one_question_def words_world_def str_eval num_eval)
  note t3 = response_answer_coerced [OF e q3, of "[ascii ''3'']"]
  from t3 p3 d have l3: "length r3 = 1" by simp
  from t3 p3 d l3 have "\<forall>n. int_of_str python_ascii ([ascii ''3''] ! 0) = Some n \<longrightarrow>
      answer (r3 ! 0) = AInt n"
    by simp
  with i3 have "answer (r3 ! 0) = AInt 3" by simp
  with l3 have a3: "map answer r3 = [AInt 3]"
    by (cases r3) simp_all
  note tw = response_answer_coerced [OF e qw, of "[ascii ''No.'']"]
  from tw pw d have lw: "length rw = 1" by simp
  from tw pw d lw have "int_of_str python_ascii ([ascii ''No.''] ! 0) = None \<and>
      float_of_str python_ascii (replace_comma ([ascii ''No.''] ! 0)) = None \<longrightarrow>
      answer (rw ! 0) = AStr ([ascii ''No.''] ! 0)"
    by simp
  with iw have "answer (rw ! 0) = AStr (ascii ''No.'')" by simp
  with lw have aw: "map answer rw = [AStr (ascii ''No.'')]"
    by (cases rw) simp_all
  from t3 p3 d have "\<forall>raw f. int_of_str python_ascii (strip raw) = None \<and>
      float_of_str python_ascii (replace_comma (strip raw)) = Some f \<longrightarrow>
      coerce_answer python_ascii raw = AFloat f"
    by simp
  with f have c: "coerce_answer python_ascii (ascii '' 2.5e3 '') = AFloat (Decimal False 25 2)"
    by blast
  from e p3 i3 a3 pw iw aw c q3 qw show ?thesis by simp
qed

text \<open>
  The claim as the specification words it fails when the chat model answers \<open>3,5\<close>: the
  trimmed answer parses neither as an integer nor as floating-point, and the response
  carries a floating-point value, not the string.
\<close>

theorem response_answer_comma_counterexample:
  "pipeline_answers comma_world 5 built_state (questions one_question) = [ascii ''3,5''] \<and>
   strip (ascii ''3,5'') = ascii ''3,5'' \<and>
   int_of_str python_ascii (ascii ''3,5'') = None \<and>
   float_of_str python_ascii (ascii ''3,5'') = None \<and>
   fst (query_endpoint python_ascii comma_world built_state one_question) =
     Inr [\<lparr>response_question_id = 1,
           relevant_chunks =
             [\<lparr>document_name = Some (ascii ''law.pdf''), page_number = Some 1\<rparr>],
           answer = AFloat (Decimal False 35 (- 1))\<rparr>] \<and>
   AFloat (Decimal False 35 (- 1)) \<noteq> AStr (ascii ''3,5'')"
  by (simp add: pipeline_eval demo_eval one_question_def comma_world_def str_eval num_eval)

end
